theory Spec2Isabelle
  imports Complex_Main "HOL-Library.Log_Nat"
begin

section \<open>Tiny World Explorer: the camera hook and the viewer\<close>

text \<open>
  A shallow embedding of \<^verbatim>\<open>useCamera\<close> (the hook: device enumeration, stream
  acquisition and hand-over, still capture, recording) and of the parts of
  \<^verbatim>\<open>App.jsx\<close> that compute the pan/zoom transform, the convolution kernels and the
  per-device settings persistence.

  A JavaScript number is the \<^typ>\<open>real\<close> it denotes. Where the result of an
  arithmetic operation is read exactly (the convolution kernels), the operation rounds to
  the nearest double; where a division can give \<^verbatim>\<open>NaN\<close> or an infinity (the pan of a
  drag), the result is a \<open>number\<close> that has these values. React state is a
  record that every handler takes and returns; a state setter followed by the effects
  that depend on the changed value is one step. The platform (media devices, tracks,
  recorders, local storage, the console) is part of the state, and what the platform
  answers to a request is an argument of the function that models the request.
\<close>

subsection \<open>Filters (App.jsx, DEFAULT_FILTERS)\<close>

record filters =
  zoom :: real
  brightness :: real
  contrast :: real
  saturate :: real
  sepia :: real
  invert :: real
  edgeDetection :: bool
  falseColor :: bool
  emboss :: real
  sharpen :: real
  grid :: bool
  crosshair :: bool

definition DEFAULT_FILTERS :: filters where
  "DEFAULT_FILTERS =
     \<lparr>zoom = 1, brightness = 100, contrast = 100, saturate = 100, sepia = 0,
      invert = 0, edgeDetection = False, falseColor = False, emboss = 0, sharpen = 0,
      grid = False, crosshair = False\<rparr>"

subsection \<open>Arithmetic on doubles\<close>

text \<open>
  A finite double is the real it denotes. \<open>exponent v\<close> is the binary exponent of a
  non-zero \<open>v\<close>, the \<open>e\<close> with \<open>2\<^sup>e \<le> |v| < 2\<^sup>e\<^sup>+\<^sup>1\<close>; \<open>quantum v\<close> is the spacing of the
  doubles around \<open>v\<close> (53 significant bits, and the fixed spacing \<open>2\<^sup>-\<^sup>1\<^sup>0\<^sup>7\<^sup>4\<close> of
  the subnormal range); \<open>roundToDouble\<close> rounds to the nearest multiple of the quantum,
  a tie to the even one. Results beyond the largest double (the infinities) are outside
  the model; no number here comes near.
\<close>

definition exponent :: "real \<Rightarrow> int" where
  "exponent v =
     (if 1 \<le> \<bar>v\<bar> then bitlen \<lfloor>\<bar>v\<bar>\<rfloor> - 1 else - bitlen (\<lceil>1 / \<bar>v\<bar>\<rceil> - 1))"

definition roundTiesToEven :: "real \<Rightarrow> int" where
  "roundTiesToEven v =
     (let n = \<lfloor>v\<rfloor>; r = v - of_int n
      in if r < 1 / 2 then n else if 1 / 2 < r then n + 1 else if even n then n else n + 1)"

definition quantum :: "real \<Rightarrow> real" where
  "quantum v = 2 powi (max (exponent v) (- 1022) - 52)"

definition roundToDouble :: "real \<Rightarrow> real" where
  "roundToDouble v =
     (if v = 0 then 0 else of_int (roundTiesToEven (v / quantum v)) * quantum v)"

text \<open>The operators \<^verbatim>\<open>/\<close>, \<^verbatim>\<open>*\<close> and \<^verbatim>\<open>+\<close> on doubles; negation is exact.\<close>

definition doubleDivide :: "real \<Rightarrow> real \<Rightarrow> real" where
  "doubleDivide a b = roundToDouble (a / b)"

definition doubleTimes :: "real \<Rightarrow> real \<Rightarrow> real" where
  "doubleTimes a b = roundToDouble (a * b)"

definition doublePlus :: "real \<Rightarrow> real \<Rightarrow> real" where
  "doublePlus a b = roundToDouble (a + b)"

subsection \<open>Dynamic kernel generation (App.jsx, sharpenMatrix and embossMatrix)\<close>

text \<open>
  The source renders the nine entries into the \<^verbatim>\<open>kernelMatrix\<close> attribute, separated
  by blanks, each as the shortest decimal that reads back as the same double; the model
  keeps the doubles, in the same order.
\<close>

definition sharpenMatrix :: "filters \<Rightarrow> real list" where
  "sharpenMatrix f =
     (let s = doubleTimes (doubleDivide (sharpen f) 100) 15
      in [0, - s, 0, - s, doublePlus 1 (doubleTimes 4 s), - s, 0, - s, 0])"

definition embossMatrix :: "filters \<Rightarrow> real list" where
  "embossMatrix f =
     (let s = doubleTimes (doubleDivide (emboss f) 100) 3
      in [doubleTimes (- 2) s, doubleTimes (- 1) s, 0, doubleTimes (- 1) s, 1,
          doubleTimes 1 s, 0, doubleTimes 1 s, doubleTimes 2 s])"

definition identityKernel :: "real list" where
  "identityKernel = [0, 0, 0, 0, 1, 0, 0, 0, 0]"

subsection \<open>The platform: devices, streams, recorders, the console\<close>

text \<open>
  A \<^verbatim>\<open>MediaStream\<close> and a \<^verbatim>\<open>MediaRecorder\<close> are objects with an identity; the
  model names a stream by a number and a recorder by its index in the list of recorders
  created so far. \<open>ended\<close> holds the streams whose tracks have all been stopped
  (\<^verbatim>\<open>track.stop()\<close> is idempotent). \<open>trace\<close> records, in order, the calls the
  hook makes to the platform.
\<close>

type_synonym stream_id = nat

datatype device_kind = videoinput | audioinput | audiooutput

record device =
  deviceId :: string
  kind :: device_kind
  label :: string

text \<open>\<^verbatim>\<open>{deviceId: {exact}, width: {ideal}, height: {ideal}, frameRate: {ideal}}\<close>\<close>

datatype constraints =
  Constraints (exactDeviceId: string) (idealWidth: "nat option")
    (idealHeight: "nat option") (idealFrameRate: "nat option")

datatype action =
    ConsoleLog string
  | ConsoleWarn string
  | ConsoleError string
  | GetUserMedia constraints
  | TrackStop stream_id

datatype recording_state = inactive | recording

record recorder =
  recordedStream :: stream_id
  recState :: recording_state

type_synonym chunk = "nat list"

text \<open>How a promise ends: with a value, with an error, or never.\<close>

datatype 'a settled = Resolved 'a | Rejected string | Pending

subsection \<open>The state of useCamera\<close>

text \<open>
  The state and the refs of the hook, and the platform's side: \<open>ended\<close>, \<open>recorders\<close>
  and \<open>trace\<close>. The health monitor and its \<^verbatim>\<open>debugInfo\<close> only read the stream and
  are left out.
\<close>

record camera =
  stream :: "stream_id option"
  devices :: "device list"
  selectedDeviceId :: string
  error :: "string option"
  isRecording :: bool
  mediaRecorderRef :: "nat option"
  recordedChunksRef :: "chunk list"
  compatibilityMode :: bool
  ended :: "stream_id set"
  recorders :: "recorder list"
  trace :: "action list"

definition initialCamera :: camera where
  "initialCamera =
     \<lparr>stream = None, devices = [], selectedDeviceId = [], error = None,
      isRecording = False, mediaRecorderRef = None, recordedChunksRef = [],
      compatibilityMode = False, ended = {}, recorders = [], trace = []\<rparr>"

definition say :: "action \<Rightarrow> camera \<Rightarrow> camera" where
  "say a c = c\<lparr>trace := trace c @ [a]\<rparr>"

text \<open>\<^verbatim>\<open>s.getTracks().forEach(track => track.stop())\<close>\<close>

definition stopTracks :: "stream_id \<Rightarrow> camera \<Rightarrow> camera" where
  "stopTracks s c = c\<lparr>ended := insert s (ended c), trace := trace c @ [TrackStop s]\<rparr>"

subsection \<open>getDevices\<close>

text \<open>
  \<^verbatim>\<open>getDevices\<close> is made by \<^verbatim>\<open>useCallback\<close> with dependency
  \<^verbatim>\<open>[selectedDeviceId]\<close>: the \<^verbatim>\<open>selectedDeviceId\<close> it tests is the one of the render
  that made the callback, that is the selection when the call starts, and not the
  selection when \<^verbatim>\<open>enumerateDevices()\<close> answers. The setters act on the state the
  answer arrives in. So a call is two steps: \<open>getDevicesCalled\<close> gives what the call
  closes over, and \<open>getDevices\<close> applies the answer (the device list, or the error
  the promise rejects with) to the state of that later moment.
\<close>

definition getDevicesCalled :: "camera \<Rightarrow> string" where
  "getDevicesCalled c = selectedDeviceId c"

definition getDevices :: "string \<Rightarrow> string + device list \<Rightarrow> camera \<Rightarrow> camera" where
  "getDevices closedOver answer c =
     (case answer of
        Inr deviceList \<Rightarrow>
          (let videoDevices = filter (\<lambda>device. kind device = videoinput) deviceList;
               c1 = c\<lparr>devices := videoDevices\<rparr>
           in if closedOver = [] \<and> length videoDevices > 0
              then c1\<lparr>selectedDeviceId := deviceId (videoDevices ! 0)\<rparr>
              else c1)
      | Inl err \<Rightarrow> say (ConsoleError (''Error enumerating devices: '' @ err)) c)"

subsection \<open>Stream management\<close>

text \<open>
  One run of the stream effect is a request: the device and the mode it closed over, and
  its \<^verbatim>\<open>mounted\<close> flag, which the effect's cleanup clears when the selection or the
  mode changes again or the component unmounts.
\<close>

record request =
  requestedDevice :: string
  requestedCompat :: bool
  mounted :: bool

definition streamEffect :: "camera \<Rightarrow> request option \<times> camera" where
  "streamEffect c =
     (let c1 = say (ConsoleLog ''Stream Effect Triggered.'') c
      in if selectedDeviceId c = [] then (None, c1)
         else (Some \<lparr>requestedDevice = selectedDeviceId c,
                      requestedCompat = compatibilityMode c, mounted = True\<rparr>, c1))"

definition streamEffectCleanup :: "request \<Rightarrow> request" where
  "streamEffectCleanup r = r\<lparr>mounted := False\<rparr>"

definition fullConstraints :: "request \<Rightarrow> constraints" where
  "fullConstraints r =
     (if requestedCompat r
      then Constraints (requestedDevice r) (Some 640) (Some 480) (Some 30)
      else Constraints (requestedDevice r) (Some 1920) (Some 1080) None)"

definition minimalConstraints :: "request \<Rightarrow> constraints" where
  "minimalConstraints r = Constraints (requestedDevice r) None None None"

text \<open>
  The effect with dependency \<^verbatim>\<open>[stream]\<close> returns a cleanup that stops the tracks
  of the stream it closed over. React runs that cleanup when the component unmounts and
  also whenever \<^verbatim>\<open>stream\<close> changes, before the effect runs for the new value.
\<close>

definition streamCleanup :: "stream_id option \<Rightarrow> camera \<Rightarrow> camera" where
  "streamCleanup closedOver c =
     (case closedOver of None \<Rightarrow> c | Some s \<Rightarrow> stopTracks s c)"

definition setStream :: "stream_id option \<Rightarrow> camera \<Rightarrow> camera" where
  "setStream v c =
     (let previous = stream c; c1 = c\<lparr>stream := v\<rparr>
      in if previous \<noteq> v then streamCleanup previous c1 else c1)"

text \<open>
  The inner \<^verbatim>\<open>try\<close>: the request with the full constraints and, when that one is
  rejected, the request with the device alone. \<open>primary\<close> and \<open>fallback\<close> are the
  platform's answers to the two calls (the second is read only when the first failed).
\<close>

definition acquire ::
  "request \<Rightarrow> string + stream_id \<Rightarrow> string + stream_id \<Rightarrow> camera
     \<Rightarrow> (string + stream_id) \<times> camera" where
  "acquire r primary fallback c =
     (let c1 = say (GetUserMedia (fullConstraints r)) c
      in case primary of
           Inr newStream \<Rightarrow> (Inr newStream, c1)
         | Inl err \<Rightarrow>
             (let c2 = say (ConsoleWarn (''Primary constraints failed '' @ err)) c1;
                  c3 = say (GetUserMedia (minimalConstraints r)) c2
              in (fallback, c3)))"

text \<open>
  \<^verbatim>\<open>startStream\<close>, from the call to the end of the async function. The state it is
  applied to is the state at the time the acquisition settles: the functional update
  \<^verbatim>\<open>setStream(prevStream => ...)\<close> reads the stream that is active then.
\<close>

definition startStream ::
  "request \<Rightarrow> string + stream_id \<Rightarrow> string + stream_id \<Rightarrow> camera
     \<Rightarrow> unit settled \<times> camera" where
  "startStream r primary fallback c =
     (let c0 = say (ConsoleLog ''Requesting stream'') c;
          (result, c1) = acquire r primary fallback c0
      in case result of
           Inr newStream \<Rightarrow>
             if mounted r
             then (let c2 = say (ConsoleLog ''Stream acquired'') c1;
                       c3 = (case stream c2 of
                               Some prevStream \<Rightarrow> stopTracks prevStream c2
                             | None \<Rightarrow> c2);
                       c4 = setStream (Some newStream) c3
                   in (Resolved (), c4\<lparr>error := None\<rparr>))
             else (Resolved (), stopTracks newStream c1)
         | Inl err \<Rightarrow>
             (let c2 = say (ConsoleError (''Error starting stream: '' @ err)) c1
              in if mounted r
                 then (Resolved (),
                       setStream None (c2\<lparr>error := Some (''Failed to connect: '' @ err)\<rparr>))
                 else (Resolved (), c2)))"

definition isStop :: "action \<Rightarrow> bool" where
  "isStop a = (case a of TrackStop _ \<Rightarrow> True | _ \<Rightarrow> False)"

definition isGetUserMedia :: "action \<Rightarrow> bool" where
  "isGetUserMedia a = (case a of GetUserMedia _ \<Rightarrow> True | _ \<Rightarrow> False)"

text \<open>The actions a step appended to the trace.\<close>

definition appended :: "camera \<Rightarrow> camera \<Rightarrow> action list" where
  "appended before after = drop (length (trace before)) (trace after)"

text \<open>No stream is opened after a track was stopped.\<close>

fun acquiredBeforeReleased :: "action list \<Rightarrow> bool" where
  "acquiredBeforeReleased [] = True"
| "acquiredBeforeReleased (a # as) =
     ((if isStop a then list_all (\<lambda>b. \<not> isGetUserMedia b) as else True)
      \<and> acquiredBeforeReleased as)"

subsection \<open>takePhoto\<close>

text \<open>
  What \<^verbatim>\<open>takePhoto\<close> reads of the video element: the intrinsic size of the decoded
  frame, the frame itself (a pixel at each column and row), and what is set on the
  element for display only, here \<open>displayStyle\<close> (the \<^verbatim>\<open>style\<close> attribute: transform
  and filter). \<^verbatim>\<open>drawImage(video, 0, 0)\<close> copies the frame at its intrinsic size with
  its corner at the given offset, clipped to the canvas; the PNG data URL is represented by
  the bitmap it encodes.
\<close>

record 'style videoElement =
  videoWidth :: nat
  videoHeight :: nat
  currentFrame :: "nat \<Rightarrow> nat \<Rightarrow> nat"
  displayStyle :: 'style

record canvas =
  width :: nat
  height :: nat
  bitmap :: "nat \<Rightarrow> nat \<Rightarrow> nat option"

definition createCanvas :: canvas where
  "createCanvas = \<lparr>width = 300, height = 150, bitmap = (\<lambda>col row. None)\<rparr>"

definition drawImage :: "'style videoElement \<Rightarrow> nat \<Rightarrow> nat \<Rightarrow> canvas \<Rightarrow> canvas" where
  "drawImage v dx dy cv =
     cv\<lparr>bitmap := (\<lambda>col row.
           if dx \<le> col \<and> col - dx < videoWidth v \<and> col < width cv
              \<and> dy \<le> row \<and> row - dy < videoHeight v \<and> row < height cv
           then Some (currentFrame v (col - dx) (row - dy))
           else bitmap cv col row)\<rparr>"

definition toDataURL :: "canvas \<Rightarrow> canvas" where
  "toDataURL cv = cv"

definition takePhoto :: "'style videoElement option \<Rightarrow> canvas option" where
  "takePhoto videoElement =
     (case videoElement of
        None \<Rightarrow> None
      | Some v \<Rightarrow>
          (let cv0 = createCanvas;
               cv1 = cv0\<lparr>width := videoWidth v\<rparr>;
               cv2 = cv1\<lparr>height := videoHeight v\<rparr>;
               cv3 = drawImage v 0 0 cv2
           in Some (toDataURL cv3)))"

subsection \<open>Recording\<close>

text \<open>
  \<^verbatim>\<open>new MediaRecorder(stream)\<close> followed by \<^verbatim>\<open>start()\<close> adds a recorder in state
  \<open>recording\<close>; every recorder made here carries the same \<^verbatim>\<open>ondataavailable\<close>
  handler, which pushes onto whatever \<^verbatim>\<open>recordedChunksRef.current\<close> is when it runs.
\<close>

definition startRecording :: "camera \<Rightarrow> camera" where
  "startRecording c =
     (case stream c of
        None \<Rightarrow> c
      | Some s \<Rightarrow>
          (let c1 = c\<lparr>recordedChunksRef := []\<rparr>;
               mediaRecorder = length (recorders c1);
               c2 = c1\<lparr>recorders := recorders c1 @ [\<lparr>recordedStream = s, recState = recording\<rparr>]\<rparr>;
               c3 = c2\<lparr>isRecording := True\<rparr>
           in c3\<lparr>mediaRecorderRef := Some mediaRecorder\<rparr>))"

definition ondataavailable :: "chunk \<Rightarrow> camera \<Rightarrow> camera" where
  "ondataavailable eventData c =
     (if length eventData > 0
      then c\<lparr>recordedChunksRef := recordedChunksRef c @ [eventData]\<rparr>
      else c)"

text \<open>The platform delivers data of recorder \<open>m\<close> while it records.\<close>

definition dataavailable :: "nat \<Rightarrow> chunk \<Rightarrow> camera \<Rightarrow> camera" where
  "dataavailable m eventData c =
     (if m < length (recorders c) \<and> recState (recorders c ! m) = recording
      then ondataavailable eventData c else c)"

text \<open>
  \<^verbatim>\<open>stopRecording\<close> with the events that follow \<^verbatim>\<open>stop()\<close> on a recording
  recorder: the recorder becomes inactive, delivers the data gathered since the last
  delivery (\<open>pending\<close>) and fires \<^verbatim>\<open>stop\<close>, whose handler resolves the promise with
  the blob of all chunks. \<^verbatim>\<open>stop()\<close> on an inactive recorder either throws
  \<^verbatim>\<open>InvalidStateError\<close> inside the promise executor, which rejects the promise, or
  does nothing and fires no event, so the promise stays pending: \<open>stopThrows\<close> says
  which of the two the platform does.
\<close>

definition stopRecording :: "bool \<Rightarrow> chunk \<Rightarrow> camera \<Rightarrow> chunk option settled \<times> camera" where
  "stopRecording stopThrows pending c =
     (case mediaRecorderRef c of
        None \<Rightarrow> (Resolved None, c)
      | Some m \<Rightarrow>
          if m < length (recorders c) \<and> recState (recorders c ! m) = recording
          then (let c1 = c\<lparr>recorders := (recorders c)[m := (recorders c ! m)\<lparr>recState := inactive\<rparr>]\<rparr>;
                    c2 = ondataavailable pending c1;
                    blob = concat (recordedChunksRef c2);
                    c3 = c2\<lparr>isRecording := False\<rparr>
                in (Resolved (Some blob), c3))
          else (if stopThrows then Rejected ''InvalidStateError'' else Pending, c))"

definition activeRecorders :: "camera \<Rightarrow> nat list" where
  "activeRecorders c =
     filter (\<lambda>m. recState (recorders c ! m) = recording) [0 ..< length (recorders c)]"

subsection \<open>The state of App\<close>

text \<open>
  The pan of a drag is computed with a division by the size of the video element, which
  gives an infinity or \<^verbatim>\<open>NaN\<close> when that size is 0: a pan coordinate is a \<open>number\<close>.
  Rounding does not bear on what is stated about the pan (\<^verbatim>\<open>Math.min\<close> and
  \<^verbatim>\<open>Math.max\<close> do not round), so a finite number is the real it denotes.
\<close>

datatype number = Finite real | PlusInfinity | MinusInfinity | NaN

text \<open>\<^verbatim>\<open>a / b\<close> for finite \<open>a\<close> and a finite \<open>b\<close> that is not negative.\<close>

definition numberDivide :: "real \<Rightarrow> real \<Rightarrow> number" where
  "numberDivide a b =
     (if b \<noteq> 0 then Finite (a / b)
      else if 0 < a then PlusInfinity else if a < 0 then MinusInfinity else NaN)"

fun numberPlus :: "number \<Rightarrow> number \<Rightarrow> number" where
  "numberPlus NaN _ = NaN"
| "numberPlus _ NaN = NaN"
| "numberPlus (Finite a) (Finite b) = Finite (a + b)"
| "numberPlus PlusInfinity MinusInfinity = NaN"
| "numberPlus MinusInfinity PlusInfinity = NaN"
| "numberPlus PlusInfinity _ = PlusInfinity"
| "numberPlus _ PlusInfinity = PlusInfinity"
| "numberPlus MinusInfinity _ = MinusInfinity"
| "numberPlus _ MinusInfinity = MinusInfinity"

text \<open>\<^verbatim>\<open>Math.min(m, n)\<close> and \<^verbatim>\<open>Math.max(m, n)\<close> for a finite \<open>m\<close>.\<close>

definition mathMin :: "real \<Rightarrow> number \<Rightarrow> number" where
  "mathMin m n =
     (case n of
        Finite r \<Rightarrow> Finite (min m r)
      | PlusInfinity \<Rightarrow> Finite m
      | MinusInfinity \<Rightarrow> MinusInfinity
      | NaN \<Rightarrow> NaN)"

definition mathMax :: "real \<Rightarrow> number \<Rightarrow> number" where
  "mathMax m n =
     (case n of
        Finite r \<Rightarrow> Finite (max m r)
      | PlusInfinity \<Rightarrow> PlusInfinity
      | MinusInfinity \<Rightarrow> Finite m
      | NaN \<Rightarrow> NaN)"

text \<open>\<^verbatim>\<open>n * 100\<close>\<close>

definition percent :: "number \<Rightarrow> number" where
  "percent n = (case n of Finite r \<Rightarrow> Finite (r * 100) | other \<Rightarrow> other)"

text \<open>\<open>|n| \<le> m\<close>, which no comparison with \<^verbatim>\<open>NaN\<close> satisfies.\<close>

definition inRange :: "real \<Rightarrow> number \<Rightarrow> bool" where
  "inRange m n = (case n of Finite r \<Rightarrow> \<bar>r\<bar> \<le> m | other \<Rightarrow> False)"

record 'n point =
  x :: 'n
  y :: 'n

datatype mediaItem = ImageItem canvas | VideoItem chunk

text \<open>
  An item of local storage: the text is empty, or is not JSON (or is JSON whose properties
  cannot be read, \<^verbatim>\<open>null\<close>), or is an object, of which the three properties the
  viewer reads are kept (\<open>None\<close> when the property is missing). The text that
  \<^verbatim>\<open>JSON.stringify\<close> writes is represented by the object it denotes:
  \<^verbatim>\<open>JSON.parse\<close> gives that object back (its numbers are finite, its other values
  booleans and strings).
\<close>

datatype stored =
    EmptyText
  | Unparsable
  | Settings (storedFilters: "filters option") (storedAspectRatio: "string option")
      (storedCompatibilityMode: "bool option")

record app =
  cam :: camera
  mediaItems :: "mediaItem list"
  aspectRatio :: string
  splitMode :: bool
  pan :: "number point"
  isDraggingRef :: bool
  lastMousePosRef :: "real point"
  isLoadedRef :: bool
  filters :: filters
  localStorage :: "string \<Rightarrow> stored option"

definition initialApp :: "(string \<Rightarrow> stored option) \<Rightarrow> app" where
  "initialApp storage =
     \<lparr>cam = initialCamera, mediaItems = [], aspectRatio = ''3/2'', splitMode = False,
      pan = \<lparr>x = Finite 0, y = Finite 0\<rparr>, isDraggingRef = False,
      lastMousePosRef = \<lparr>x = 0, y = 0\<rparr>,
      isLoadedRef = False, filters = DEFAULT_FILTERS, localStorage = storage\<rparr>"

subsection \<open>Settings: the save effect, the setters, the load effect\<close>

definition settingsKey :: "string \<Rightarrow> string" where
  "settingsKey device = ''camera_settings_'' @ device"

definition saveSettings :: "app \<Rightarrow> app" where
  "saveSettings a =
     (if selectedDeviceId (cam a) = [] \<or> \<not> isLoadedRef a then a
      else (let settings = Settings (Some (filters a)) (Some (aspectRatio a))
                             (Some (compatibilityMode (cam a)))
            in a\<lparr>localStorage := (localStorage a)
                    (settingsKey (selectedDeviceId (cam a)) \<mapsto> settings)\<rparr>))"

text \<open>The effect with dependency \<^verbatim>\<open>[filters.zoom]\<close>.\<close>

definition panResetEffect :: "app \<Rightarrow> app" where
  "panResetEffect a =
     (if zoom (filters a) = 1 then a\<lparr>pan := \<lparr>x = Finite 0, y = Finite 0\<rparr>\<rparr> else a)"

text \<open>
  \<^verbatim>\<open>setFilters\<close> in two steps. React first renders with the new filters and every
  other state as it was: that is \<open>setFiltersRendered\<close>, the state \<^verbatim>\<open>videoStyle\<close> is
  computed from for that render (after a change to zoom 1, still with the pan of before).
  Then the effects that depend on what changed run, in the order of the source: the save
  effect, and the pan reset when the zoom changed. \<open>setFilters\<close> is the state after
  the effects, in which the next handler runs.
\<close>

definition setFiltersRendered :: "filters \<Rightarrow> app \<Rightarrow> app" where
  "setFiltersRendered f a = a\<lparr>filters := f\<rparr>"

definition setFilters :: "filters \<Rightarrow> app \<Rightarrow> app" where
  "setFilters f a =
     (let a1 = saveSettings (setFiltersRendered f a)
      in if zoom f \<noteq> zoom (filters a) then panResetEffect a1 else a1)"

definition resetFilters :: "app \<Rightarrow> app" where
  "resetFilters a = setFilters DEFAULT_FILTERS a"

definition setAspectRatio :: "string \<Rightarrow> app \<Rightarrow> app" where
  "setAspectRatio v a = saveSettings (a\<lparr>aspectRatio := v\<rparr>)"

definition setCompatibilityMode :: "bool \<Rightarrow> app \<Rightarrow> app" where
  "setCompatibilityMode v a = saveSettings (a\<lparr>cam := (cam a)\<lparr>compatibilityMode := v\<rparr>\<rparr>)"

text \<open>The values of the aspect-ratio selector.\<close>

definition aspectRatioOptions :: "string list" where
  "aspectRatioOptions = [''3/2'', ''4/3'', ''16/9'', ''1/1'', ''native'']"

definition loadSettings :: "app \<Rightarrow> app" where
  "loadSettings a =
     (if selectedDeviceId (cam a) = [] then a
      else (let saved = localStorage a (settingsKey (selectedDeviceId (cam a)));
                a1 = a\<lparr>isLoadedRef := False\<rparr>
            in case saved of
                 Some (Settings parsedFilters parsedAspectRatio parsedCompatibilityMode) \<Rightarrow>
                   (let a2 = setFilters (case parsedFilters of
                                           Some f \<Rightarrow> f | None \<Rightarrow> DEFAULT_FILTERS) a1;
                        a3 = setAspectRatio (case parsedAspectRatio of
                                           Some r \<Rightarrow> if r \<noteq> [] then r else ''3/2''
                                         | None \<Rightarrow> ''3/2'') a2
                    in case parsedCompatibilityMode of
                         Some m \<Rightarrow> setCompatibilityMode m a3
                       | None \<Rightarrow> a3)
               | Some Unparsable \<Rightarrow>
                   (let a2 = a1\<lparr>cam := say (ConsoleError ''Failed to parse settings'') (cam a1)\<rparr>
                    in setAspectRatio ''3/2'' (setFilters DEFAULT_FILTERS a2))
               | Some EmptyText \<Rightarrow> setAspectRatio ''3/2'' (setFilters DEFAULT_FILTERS a1)
               | None \<Rightarrow> setAspectRatio ''3/2'' (setFilters DEFAULT_FILTERS a1)))"

text \<open>The timer the load effect starts: 100 ms later saving is allowed again.\<close>

definition settle :: "app \<Rightarrow> app" where
  "settle a = a\<lparr>isLoadedRef := True\<rparr>"

text \<open>
  Selecting a device, then the effects with dependency \<^verbatim>\<open>selectedDeviceId\<close>: load,
  then save.
\<close>

definition setSelectedDeviceId :: "string \<Rightarrow> app \<Rightarrow> app" where
  "setSelectedDeviceId device a =
     (let a1 = a\<lparr>cam := (cam a)\<lparr>selectedDeviceId := device\<rparr>\<rparr>
      in if device \<noteq> selectedDeviceId (cam a) then saveSettings (loadSettings a1) else a1)"

subsection \<open>Pan and zoom\<close>

record css =
  cssAspectRatio :: string
  translate :: "number point"
  scale :: real
  cssFilter :: filters

definition effectivePan :: "app \<Rightarrow> number point" where
  "effectivePan a =
     (if zoom (filters a) = 1 then \<lparr>x = Finite 0, y = Finite 0\<rparr> else pan a)"

definition videoStyle :: "app \<Rightarrow> css" where
  "videoStyle a =
     \<lparr>cssAspectRatio = (if aspectRatio a = ''native'' then ''auto'' else aspectRatio a),
      translate = \<lparr>x = percent (x (effectivePan a)), y = percent (y (effectivePan a))\<rparr>,
      scale = zoom (filters a),
      cssFilter = filters a\<rparr>"

definition handlePanChange :: "real \<Rightarrow> real \<Rightarrow> app \<Rightarrow> app" where
  "handlePanChange newX newY a =
     (if zoom (filters a) \<le> 1 then a
      else (let maxPan = (zoom (filters a) - 1) / 2;
                clampedX = max (- maxPan) (min maxPan newX);
                clampedY = max (- maxPan) (min maxPan newY)
            in a\<lparr>pan := \<lparr>x = Finite clampedX, y = Finite clampedY\<rparr>\<rparr>))"

definition handleMouseDown :: "real point \<Rightarrow> app \<Rightarrow> app" where
  "handleMouseDown e a =
     (if zoom (filters a) > 1 \<and> \<not> splitMode a
      then a\<lparr>isDraggingRef := True, lastMousePosRef := e\<rparr>
      else a)"

text \<open>The functional update of \<^verbatim>\<open>handleMouseMove\<close>: the pan delta applied to the pan.\<close>

definition applyPanDelta :: "number \<Rightarrow> number \<Rightarrow> app \<Rightarrow> app" where
  "applyPanDelta panDeltaX panDeltaY a =
     (let maxPan = (zoom (filters a) - 1) / 2;
          nx = numberPlus (x (pan a)) panDeltaX;
          ny = numberPlus (y (pan a)) panDeltaY
      in a\<lparr>pan := \<lparr>x = mathMax (- maxPan) (mathMin maxPan nx),
                    y = mathMax (- maxPan) (mathMin maxPan ny)\<rparr>\<rparr>)"

text \<open>
  \<open>box\<close> is \<^verbatim>\<open>offsetWidth\<close> and \<^verbatim>\<open>offsetHeight\<close> of the video element (neither
  is negative), \<open>None\<close> when \<^verbatim>\<open>videoRef.current\<close> is null.
\<close>

definition handleMouseMove :: "real point \<Rightarrow> (real \<times> real) option \<Rightarrow> app \<Rightarrow> app" where
  "handleMouseMove e box a =
     (case box of
        None \<Rightarrow> a
      | Some (w, h) \<Rightarrow>
          if isDraggingRef a
          then (let deltaX = x e - x (lastMousePosRef a);
                    deltaY = y e - y (lastMousePosRef a);
                    a1 = a\<lparr>lastMousePosRef := e\<rparr>;
                    panDeltaX = numberDivide deltaX w;
                    panDeltaY = numberDivide deltaY h
                in applyPanDelta panDeltaX panDeltaY a1)
          else a)"

definition handleMouseUp :: "app \<Rightarrow> app" where
  "handleMouseUp a = a\<lparr>isDraggingRef := False\<rparr>"

subsection \<open>The record button\<close>

definition handleToggleRecord :: "bool \<Rightarrow> chunk \<Rightarrow> app \<Rightarrow> app" where
  "handleToggleRecord stopThrows pending a =
     (if isRecording (cam a)
      then (let (videoUrl, c1) = stopRecording stopThrows pending (cam a);
                a1 = a\<lparr>cam := c1\<rparr>
            in case videoUrl of
                 Resolved (Some url) \<Rightarrow> a1\<lparr>mediaItems := VideoItem url # mediaItems a1\<rparr>
               | _ \<Rightarrow> a1)
      else a\<lparr>cam := startRecording (cam a)\<rparr>)"

subsection \<open>The states the viewer can be in\<close>

text \<open>
  The states reached from the initial one by the setters and handlers above, the render
  between a change of the filters and its effects included. The hook's own state and the
  contents of local storage may change in any way in between (other handlers, other
  tabs): the selection goes through \<open>setSelectedDeviceId\<close>.
\<close>

inductive reachable :: "app \<Rightarrow> bool" where
  init: "reachable (initialApp storage)"
| hookChange: "reachable a \<Longrightarrow> selectedDeviceId c = selectedDeviceId (cam a)
           \<Longrightarrow> reachable (a\<lparr>cam := c\<rparr>)"
| storageChange: "reachable a \<Longrightarrow> reachable (a\<lparr>localStorage := s\<rparr>)"
| filtersRendered: "reachable a \<Longrightarrow> reachable (setFiltersRendered f a)"
| filtersSet: "reachable a \<Longrightarrow> reachable (setFilters f a)"
| aspectSet: "reachable a \<Longrightarrow> v \<in> set aspectRatioOptions \<Longrightarrow> reachable (setAspectRatio v a)"
| modeSet: "reachable a \<Longrightarrow> reachable (setCompatibilityMode v a)"
| deviceSet: "reachable a \<Longrightarrow> reachable (setSelectedDeviceId device a)"
| timerFired: "reachable a \<Longrightarrow> reachable (settle a)"
| splitSet: "reachable a \<Longrightarrow> reachable (a\<lparr>splitMode := b\<rparr>)"
| panTo: "reachable a \<Longrightarrow> reachable (handlePanChange newX newY a)"
| mouseDown: "reachable a \<Longrightarrow> reachable (handleMouseDown e a)"
| mouseMove: "reachable a \<Longrightarrow> reachable (handleMouseMove e box a)"
| mouseUp: "reachable a \<Longrightarrow> reachable (handleMouseUp a)"
| recordToggled: "reachable a \<Longrightarrow> reachable (handleToggleRecord stopThrows pending a)"

subsection \<open>Recording driven by the record button\<close>


subsection \<open>Invariants\<close>

text \<open>At zoom 1 the stored pan is the origin.\<close>

definition centred :: "app \<Rightarrow> bool" where
  "centred a = (zoom (filters a) = 1 \<longrightarrow> pan a = \<lparr>x = Finite 0, y = Finite 0\<rparr>)"


subsection \<open>Concrete states\<close>

text \<open>A camera whose active stream is stream 1, with device \<open>camB\<close> just selected.\<close>

definition cameraOnA :: camera where
  "cameraOnA = initialCamera\<lparr>stream := Some 1, selectedDeviceId := ''camB'',
      devices := [\<lparr>deviceId = ''camA'', kind = videoinput, label = ''Scope''\<rparr>]\<rparr>"

definition requestB :: request where
  "requestB = \<lparr>requestedDevice = ''camB'', requestedCompat = False, mounted = True\<rparr>"



definition zoomedApp :: app where
  "zoomedApp = setFilters (DEFAULT_FILTERS\<lparr>zoom := 3\<rparr>) (initialApp Map.empty)"

text \<open>At zoom 3, a drag begun at \<open>(100, 100)\<close>; and at zoom 3, the pan moved to \<open>(1, -1)\<close>.\<close>

definition draggingApp :: app where
  "draggingApp = handleMouseDown \<lparr>x = 100, y = 100\<rparr> zoomedApp"

definition pannedApp :: app where
  "pannedApp = handlePanChange 5 (- 5) zoomedApp"

definition sampleVideo :: "css videoElement" where
  "sampleVideo = \<lparr>videoWidth = 2, videoHeight = 2,
      currentFrame = (\<lambda>col row. col + 10 * row), displayStyle = videoStyle zoomedApp\<rparr>"

text \<open>
  Device \<open>camA\<close> selected, the load settled, then the zoom, the sharpening and the aspect
  ratio changed; and the viewer after a reload of the page, with what was stored.
\<close>

definition savedApp :: app where
  "savedApp = setAspectRatio ''16/9'' (setFilters (DEFAULT_FILTERS\<lparr>zoom := 2, sharpen := 40\<rparr>)
      (settle (setSelectedDeviceId ''camA'' (initialApp Map.empty))))"

definition reloadedApp :: app where
  "reloadedApp = (initialApp (localStorage (saveSettings savedApp)))
      \<lparr>cam := initialCamera\<lparr>selectedDeviceId := ''camA''\<rparr>\<rparr>"

section \<open>Properties\<close>

lemmas stream_defs = startStream_def acquire_def say_def stopTracks_def setStream_def
  streamCleanup_def appended_def isStop_def isGetUserMedia_def Let_def
  fullConstraints_def minimalConstraints_def

lemmas rec_defs = startRecording_def stopRecording_def dataavailable_def ondataavailable_def
  activeRecorders_def Let_def initialCamera_def

lemmas app_defs = setFilters_def saveSettings_def panResetEffect_def initialApp_def
  initialCamera_def DEFAULT_FILTERS_def setAspectRatio_def setCompatibilityMode_def
  setSelectedDeviceId_def loadSettings_def settle_def settingsKey_def Let_def

subsection \<open>Rounding to a double\<close>

lemma bitlen_numeral_eval:
  "bitlen 1 = 1"
  "bitlen (numeral (Num.Bit0 n)) = bitlen (numeral n) + 1"
  "bitlen (numeral (Num.Bit1 n)) = bitlen (numeral n) + 1"
proof -
  show "bitlen 1 = 1" by (subst compute_bitlen) simp
  have "bitlen (numeral (Num.Bit0 n)) = bitlen (numeral (Num.Bit0 n) div 2) + 1"
    by (subst compute_bitlen) simp
  then show "bitlen (numeral (Num.Bit0 n)) = bitlen (numeral n) + 1" by simp
  have "bitlen (numeral (Num.Bit1 n)) = bitlen (numeral (Num.Bit1 n) div 2) + 1"
    by (subst compute_bitlen) simp
  then show "bitlen (numeral (Num.Bit1 n)) = bitlen (numeral n) + 1" by simp
qed

lemmas double_eval = roundToDouble_def quantum_def exponent_def roundTiesToEven_def Let_def
  bitlen_numeral_eval power_int_minus doubleDivide_def doubleTimes_def doublePlus_def

text \<open>\<open>exponent\<close> is the binary exponent.\<close>

lemma exponent_bounds:
  assumes "v \<noteq> 0"
  shows "2 powi exponent v \<le> \<bar>v\<bar> \<and> \<bar>v\<bar> < 2 powi (exponent v + 1)"
proof (cases "1 \<le> \<bar>v\<bar>")
  case True
  define n where "n = \<lfloor>\<bar>v\<bar>\<rfloor>"
  have n: "0 < n" using True by (simp add: n_def)
  have nv: "of_int n \<le> \<bar>v\<bar>" "\<bar>v\<bar> < of_int n + 1" unfolding n_def by linarith+
  have b: "0 < bitlen n" using n bitlen_eq_zero_iff [of n] bitlen_nonneg [of n] by linarith
  have lo: "2 ^ nat (bitlen n - 1) \<le> n" and hi: "n < 2 ^ nat (bitlen n)"
    using bitlen_bounds [OF n] by auto
  have e: "exponent v = bitlen n - 1" using True by (simp add: exponent_def n_def)
  have "(2::real) powi (bitlen n - 1) = 2 ^ nat (bitlen n - 1)"
    using b by (simp add: power_int_def)
  also have "\<dots> = of_int (2 ^ nat (bitlen n - 1))" by simp
  also have "\<dots> \<le> of_int n" using lo by (simp only: of_int_le_iff)
  finally have 1: "2 powi (bitlen n - 1) \<le> \<bar>v\<bar>" using nv by linarith
  have "n + 1 \<le> 2 ^ nat (bitlen n)" using hi by simp
  then have "(of_int (n + 1) :: real) \<le> of_int (2 ^ nat (bitlen n))" by (simp only: of_int_le_iff)
  then have "of_int n + 1 \<le> (2::real) ^ nat (bitlen n)" by simp
  also have "\<dots> = 2 powi (bitlen n)" using b by (simp add: power_int_def)
  finally have 2: "\<bar>v\<bar> < 2 powi (bitlen n)" using nv by linarith
  show ?thesis using 1 2 by (simp add: e)
next
  case False
  define w where "w = 1 / \<bar>v\<bar>"
  have v: "0 < \<bar>v\<bar>" "\<bar>v\<bar> < 1" using assms False by auto
  have w1: "1 < w" using v by (simp add: w_def)
  define n where "n = \<lceil>w\<rceil> - 1"
  have nw: "of_int n < w" "w \<le> of_int n + 1" unfolding n_def by linarith+
  have n: "0 < n" using w1 nw by linarith
  have b: "0 < bitlen n" using n bitlen_eq_zero_iff [of n] bitlen_nonneg [of n] by linarith
  have lo: "2 ^ nat (bitlen n - 1) \<le> n" and hi: "n < 2 ^ nat (bitlen n)"
    using bitlen_bounds [OF n] by auto
  have e: "exponent v = - bitlen n" using False by (simp add: exponent_def n_def w_def)
  have "(2::real) ^ nat (bitlen n - 1) = of_int (2 ^ nat (bitlen n - 1))" by simp
  also have "\<dots> \<le> of_int n" using lo by (simp only: of_int_le_iff)
  finally have "(2::real) ^ nat (bitlen n - 1) < w" using nw by linarith
  then have 1: "\<bar>v\<bar> < 1 / 2 ^ nat (bitlen n - 1)"
    using v by (simp add: w_def field_simps)
  have "n + 1 \<le> 2 ^ nat (bitlen n)" using hi by simp
  then have "(of_int (n + 1) :: real) \<le> of_int (2 ^ nat (bitlen n))" by (simp only: of_int_le_iff)
  then have "of_int n + 1 \<le> (2::real) ^ nat (bitlen n)" by simp
  then have "w \<le> (2::real) ^ nat (bitlen n)" using nw by linarith
  then have 2: "1 / 2 ^ nat (bitlen n) \<le> \<bar>v\<bar>"
    using v by (simp add: w_def field_simps)
  have p1: "(2::real) powi (- bitlen n) = 1 / 2 ^ nat (bitlen n)"
    using b by (simp add: power_int_def field_simps)
  have p2: "(2::real) powi (1 - bitlen n) = 1 / 2 ^ nat (bitlen n - 1)"
  proof -
    have "1 - bitlen n = - (bitlen n - 1)" by simp
    then have "(2::real) powi (1 - bitlen n) = 2 powi (- (bitlen n - 1))" by simp
    also have "\<dots> = 1 / 2 ^ nat (bitlen n - 1)"
      using b unfolding power_int_minus by (simp add: power_int_def field_simps)
    finally show ?thesis .
  qed
  show ?thesis using 1 2 by (simp add: e p1 p2)
qed


lemma roundTiesToEven_minus: "roundTiesToEven (- v) = - roundTiesToEven v"
proof (cases "v \<in> \<int>")
  case True
  then obtain k where k: "v = of_int k" by (auto elim: Ints_cases)
  show ?thesis by (simp add: roundTiesToEven_def k Let_def)
next
  case False
  then have ne: "v \<noteq> of_int \<lfloor>v\<rfloor>" by (metis Ints_of_int)
  have fl: "\<lfloor>- v\<rfloor> = - \<lfloor>v\<rfloor> - 1"
    using ne by (simp add: floor_minus ceiling_altdef)
  have "of_int \<lfloor>v\<rfloor> \<le> v" "v < of_int \<lfloor>v\<rfloor> + 1" by linarith+
  then have r: "0 < v - of_int \<lfloor>v\<rfloor>" "v - of_int \<lfloor>v\<rfloor> < 1"
    using ne by linarith+
  show ?thesis
    unfolding roundTiesToEven_def Let_def fl using r by (auto; linarith)
qed

lemma roundTiesToEven_error: "\<bar>of_int (roundTiesToEven v) - v\<bar> \<le> 1 / 2"
proof -
  define r where "r = v - of_int \<lfloor>v\<rfloor>"
  have r: "0 \<le> r" "r < 1" unfolding r_def by linarith+
  have v: "v = of_int \<lfloor>v\<rfloor> + r" by (simp add: r_def)
  have "\<bar>of_int (if r < 1 / 2 then \<lfloor>v\<rfloor> else if 1 / 2 < r then \<lfloor>v\<rfloor> + 1
        else if even \<lfloor>v\<rfloor> then \<lfloor>v\<rfloor> else \<lfloor>v\<rfloor> + 1) - (of_int \<lfloor>v\<rfloor> + r)\<bar> \<le> 1 / 2"
    using r by (simp add: abs_if)
  then show ?thesis
    unfolding roundTiesToEven_def Let_def r_def by simp
qed

lemma exponent_minus [simp]: "exponent (- v) = exponent v"
  by (simp add: exponent_def)

lemma quantum_minus [simp]: "quantum (- v) = quantum v"
  by (simp add: quantum_def)

lemma quantum_pos: "0 < quantum v"
  by (simp add: quantum_def)

lemma roundToDouble_minus: "roundToDouble (- v) = - roundToDouble v"
  by (simp add: roundToDouble_def roundTiesToEven_minus)

lemma roundToDouble_error: "\<bar>roundToDouble v - v\<bar> \<le> quantum v / 2"
proof (cases "v = 0")
  case True
  then show ?thesis using quantum_pos [of v] by (simp add: roundToDouble_def)
next
  case False
  have q: "0 < quantum v" by (rule quantum_pos)
  have "roundToDouble v - v = (of_int (roundTiesToEven (v / quantum v)) - v / quantum v) * quantum v"
    using False q by (simp add: roundToDouble_def field_simps)
  then have "\<bar>roundToDouble v - v\<bar> = \<bar>of_int (roundTiesToEven (v / quantum v)) - v / quantum v\<bar> * quantum v"
    using q by (simp add: abs_mult)
  also have "\<dots> \<le> 1 / 2 * quantum v"
    using q roundTiesToEven_error [of "v / quantum v"] by (intro mult_right_mono) auto
  finally show ?thesis by simp
qed

lemma quantum_le:
  assumes "\<bar>v\<bar> < 2 ^ k" and "0 < k"
  shows "quantum v \<le> 2 powi (int k - 53)"
proof -
  have e: "exponent v \<le> int k - 1"
  proof (cases "1 \<le> \<bar>v\<bar>")
    case True
    have "\<lfloor>\<bar>v\<bar>\<rfloor> < 2 ^ k"
      using assms(1) by (metis floor_less_iff of_int_numeral of_int_power)
    then have "bitlen \<lfloor>\<bar>v\<bar>\<rfloor> \<le> int k"
      by (simp add: bitlen_le_iff_power)
    then show ?thesis using True by (simp add: exponent_def)
  next
    case False
    have "0 \<le> bitlen (\<lceil>1 / \<bar>v\<bar>\<rceil> - 1)" by (rule bitlen_nonneg)
    then show ?thesis using False assms(2) by (simp add: exponent_def)
  qed
  have "max (exponent v) (- 1022) - 52 \<le> int k - 53"
    using e by simp
  then show ?thesis
    unfolding quantum_def by (intro power_int_increasing) auto
qed

lemma roundToDouble_near:
  assumes "\<bar>v\<bar> < 2 ^ k" and "0 < k"
  shows "\<bar>roundToDouble v - v\<bar> \<le> 2 powi (int k - 54)"
proof -
  have "quantum v / 2 \<le> 2 powi (int k - 53) / 2"
    using quantum_le [OF assms] by simp
  also have "\<dots> = 2 powi (int k - 54)"
    by (simp add: power_int_diff)
  finally show ?thesis using roundToDouble_error [of v] by linarith
qed

subsection \<open>Convolution kernels\<close>

lemma emboss_sum: "sum_list (embossMatrix f) = 1"
  using roundToDouble_minus [of "2 * doubleTimes (doubleDivide (emboss f) 100) 3"]
    roundToDouble_minus [of "doubleTimes (doubleDivide (emboss f) 100) 3"]
  by (simp add: embossMatrix_def Let_def doubleTimes_def)

lemma sharpen_sum:
  "sum_list (sharpenMatrix f)
     = doublePlus 1 (doubleTimes 4 (doubleTimes (doubleDivide (sharpen f) 100) 15))
       - 4 * doubleTimes (doubleDivide (sharpen f) 100) 15"
  by (simp add: sharpenMatrix_def Let_def)

lemma sharpen_sum_near:
  assumes "0 \<le> sharpen f" and "sharpen f \<le> 100"
  shows "\<bar>sum_list (sharpenMatrix f) - 1\<bar> \<le> 1 / 2 ^ 47"
proof -
  let ?a = "doubleDivide (sharpen f) 100"
  let ?s = "doubleTimes ?a 15"
  let ?c = "doubleTimes 4 ?s"
  let ?d = "doublePlus 1 ?c"
  have i: "\<bar>sharpen f / 100\<bar> < 2 ^ 1" using assms by simp
  have "\<bar>?a - sharpen f / 100\<bar> \<le> 1 / 2 ^ 53"
    using roundToDouble_near [OF i] by (simp add: doubleDivide_def power_int_minus divide_simps)
  then have "\<bar>?a - sharpen f / 100\<bar> \<le> 1 / 100" by simp
  then have a: "- (1 / 100) \<le> ?a" "?a \<le> 101 / 100" using assms by linarith+
  have a1: "\<bar>?a * 15\<bar> < 2 ^ 4" using a by (simp add: abs_if)
  have "\<bar>?s - ?a * 15\<bar> \<le> 1 / 2 ^ 50"
    using roundToDouble_near [OF a1] by (simp add: doubleTimes_def power_int_minus divide_simps)
  then have "\<bar>?s - ?a * 15\<bar> \<le> 1 / 100" by simp
  then have s: "- (16 / 100) \<le> ?s" "?s \<le> 1516 / 100" using a by linarith+
  have s1: "\<bar>4 * ?s\<bar> < 2 ^ 6" using s by (simp add: abs_if)
  have c: "\<bar>?c - 4 * ?s\<bar> \<le> 1 / 2 ^ 48"
    using roundToDouble_near [OF s1] by (simp add: doubleTimes_def power_int_minus divide_simps)
  then have "\<bar>?c - 4 * ?s\<bar> \<le> 1 / 100" by simp
  then have c': "- (65 / 100) \<le> ?c" "?c \<le> 6065 / 100" using s by linarith+
  have c1: "\<bar>1 + ?c\<bar> < 2 ^ 6" using c' by (simp add: abs_if)
  have d: "\<bar>?d - (1 + ?c)\<bar> \<le> 1 / 2 ^ 48"
    using roundToDouble_near [OF c1] by (simp add: doublePlus_def power_int_minus divide_simps)
  have "\<bar>(?d - (1 + ?c)) + (?c - 4 * ?s)\<bar> \<le> 1 / 2 ^ 48 + 1 / 2 ^ 48"
    using c d by linarith
  also have "(1::real) / 2 ^ 48 + 1 / 2 ^ 48 = 1 / 2 ^ 47" by simp
  finally show ?thesis
    unfolding sharpen_sum by (simp add: algebra_simps)
qed

text \<open>
  At sharpen intensity 2 the entries of the sharpen kernel do not sum to 1: \<open>s\<close> is the
  double next to 0.3, \<open>1 + 4 s\<close> lies halfway between two doubles and is rounded up to
  the even one, and the nine entries sum to \<open>1 + 2\<^sup>-\<^sup>5\<^sup>2\<close>.
\<close>

theorem sharpen_sum_at_two:
  "doubleTimes (doubleDivide 2 100) 15 = 5404319552844595 / 2 ^ 54
   \<and> sharpenMatrix (DEFAULT_FILTERS\<lparr>sharpen := 2\<rparr>)
      = [0, - (5404319552844595 / 2 ^ 54), 0,
         - (5404319552844595 / 2 ^ 54), 9907919180215092 / 2 ^ 52, - (5404319552844595 / 2 ^ 54),
         0, - (5404319552844595 / 2 ^ 54), 0]
   \<and> sum_list (sharpenMatrix (DEFAULT_FILTERS\<lparr>sharpen := 2\<rparr>)) = 1 + 1 / 2 ^ 52
   \<and> sum_list (sharpenMatrix (DEFAULT_FILTERS\<lparr>sharpen := 2\<rparr>)) \<noteq> 1"
  by (simp add: sharpenMatrix_def double_eval)

text \<open>
  At emboss intensity 40 the first entry is the double printed as
  \<^verbatim>\<open>-2.4000000000000004\<close>, not \<open>-12/5\<close>.
\<close>

lemma emboss_entry_at_forty:
  "hd (embossMatrix (DEFAULT_FILTERS\<lparr>emboss := 40\<rparr>)) = - (5404319552844596 / 2 ^ 51)
   \<and> hd (embossMatrix (DEFAULT_FILTERS\<lparr>emboss := 40\<rparr>)) \<noteq> - (12 / 5)"
  by (simp add: embossMatrix_def double_eval)

text \<open>
  Claim C4, amended. The sharpen and the emboss kernel are functions of their intensity
  alone, computed in double arithmetic: with \<open>s = (sharpen / 100) * 15\<close> the sharpen
  kernel is \<open>[0, -s, 0, -s, 1 + 4 s, -s, 0, -s, 0]\<close>, with \<open>e = (emboss / 100) * 3\<close> the
  emboss kernel is \<open>[-2 e, -1 e, 0, -1 e, 1, 1 e, 0, 1 e, 2 e]\<close>, every operation rounded
  to the nearest double. At intensity 0 both are the identity kernel. The entries of the
  emboss kernel sum to 1 at every intensity. The entries of the sharpen kernel sum to 1
  up to the rounding of its centre entry: the sum is the rounded \<open>1 + 4 s\<close> less
  \<open>4 s\<close>, within \<open>2\<^sup>-\<^sup>4\<^sup>7\<close> of 1 at every intensity between 0 and 100.
\<close>

theorem kernels_linear_blend:
  fixes f :: filters and i :: real
  shows "sharpenMatrix (f\<lparr>sharpen := i\<rparr>) =
           (let s = doubleTimes (doubleDivide i 100) 15
            in [0, - s, 0, - s, doublePlus 1 (doubleTimes 4 s), - s, 0, - s, 0])
       \<and> embossMatrix (f\<lparr>emboss := i\<rparr>) =
           (let e = doubleTimes (doubleDivide i 100) 3
            in [doubleTimes (- 2) e, doubleTimes (- 1) e, 0, doubleTimes (- 1) e, 1,
                doubleTimes 1 e, 0, doubleTimes 1 e, doubleTimes 2 e])
       \<and> sharpenMatrix (f\<lparr>sharpen := 0\<rparr>) = identityKernel
       \<and> embossMatrix (f\<lparr>emboss := 0\<rparr>) = identityKernel
       \<and> sum_list (embossMatrix (f\<lparr>emboss := i\<rparr>)) = 1
       \<and> sum_list (sharpenMatrix (f\<lparr>sharpen := i\<rparr>))
           = doublePlus 1 (doubleTimes 4 (doubleTimes (doubleDivide i 100) 15))
             - 4 * doubleTimes (doubleDivide i 100) 15
       \<and> (0 \<le> i \<and> i \<le> 100 \<longrightarrow>
            \<bar>sum_list (sharpenMatrix (f\<lparr>sharpen := i\<rparr>)) - 1\<bar> \<le> 1 / 2 ^ 47)"
proof -
  have 1: "sharpenMatrix (f\<lparr>sharpen := i\<rparr>) =
           (let s = doubleTimes (doubleDivide i 100) 15
            in [0, - s, 0, - s, doublePlus 1 (doubleTimes 4 s), - s, 0, - s, 0])"
    by (simp add: sharpenMatrix_def)
  have 2: "embossMatrix (f\<lparr>emboss := i\<rparr>) =
           (let e = doubleTimes (doubleDivide i 100) 3
            in [doubleTimes (- 2) e, doubleTimes (- 1) e, 0, doubleTimes (- 1) e, 1,
                doubleTimes 1 e, 0, doubleTimes 1 e, doubleTimes 2 e])"
    by (simp add: embossMatrix_def)
  have 3: "sharpenMatrix (f\<lparr>sharpen := 0\<rparr>) = identityKernel"
    by (simp add: sharpenMatrix_def identityKernel_def double_eval)
  have 4: "embossMatrix (f\<lparr>emboss := 0\<rparr>) = identityKernel"
    by (simp add: embossMatrix_def identityKernel_def double_eval)
  have 5: "sum_list (embossMatrix (f\<lparr>emboss := i\<rparr>)) = 1"
    by (rule emboss_sum)
  have 6: "sum_list (sharpenMatrix (f\<lparr>sharpen := i\<rparr>))
           = doublePlus 1 (doubleTimes 4 (doubleTimes (doubleDivide i 100) 15))
             - 4 * doubleTimes (doubleDivide i 100) 15"
    using sharpen_sum [of "f\<lparr>sharpen := i\<rparr>"] by simp
  have 7: "0 \<le> i \<and> i \<le> 100 \<longrightarrow>
            \<bar>sum_list (sharpenMatrix (f\<lparr>sharpen := i\<rparr>)) - 1\<bar> \<le> 1 / 2 ^ 47"
    using sharpen_sum_near [of "f\<lparr>sharpen := i\<rparr>"] by simp
  show ?thesis using 1 2 3 4 5 6 7 by blast
qed

text \<open>
  At intensity 2: the emboss entries sum to 1, and the sharpen entries sum to
  \<open>1 + 2\<^sup>-\<^sup>5\<^sup>2\<close>, within the bound.
\<close>

theorem kernels_linear_blend_witness:
  "(0::real) \<le> 2 \<and> (2::real) \<le> 100
   \<and> sum_list (embossMatrix (DEFAULT_FILTERS\<lparr>emboss := 2\<rparr>)) = 1
   \<and> \<bar>sum_list (sharpenMatrix (DEFAULT_FILTERS\<lparr>sharpen := 2\<rparr>)) - 1\<bar> \<le> 1 / 2 ^ 47
   \<and> doublePlus 1 (doubleTimes 4 (doubleTimes (doubleDivide 2 100) 15))
       - 4 * doubleTimes (doubleDivide 2 100) 15 = 1 + 1 / 2 ^ 52"
proof -
  note t = kernels_linear_blend [where f = DEFAULT_FILTERS and i = 2]
  have 1: "sum_list (embossMatrix (DEFAULT_FILTERS\<lparr>emboss := 2\<rparr>)) = 1"
    using t by blast
  have h: "(0::real) \<le> 2 \<and> (2::real) \<le> 100" by simp
  have 2: "\<bar>sum_list (sharpenMatrix (DEFAULT_FILTERS\<lparr>sharpen := 2\<rparr>)) - 1\<bar> \<le> 1 / 2 ^ 47"
    using t h by blast
  have 3: "doublePlus 1 (doubleTimes 4 (doubleTimes (doubleDivide 2 100) 15))
       - 4 * doubleTimes (doubleDivide 2 100) 15 = 1 + 1 / 2 ^ 52"
    by (simp add: double_eval)
  show ?thesis using h 1 2 3 by blast
qed

subsection \<open>Switching streams\<close>

text \<open>
  When both attempts fail for a request that is still mounted, the stream that was active
  has its tracks stopped although no replacement was acquired: stream 1 is live and
  active before, both answers are errors, and afterwards stream 1 is ended and no stream
  is active.
\<close>

theorem failed_switch_stops_previous:
  "stream cameraOnA = Some 1 \<and> 1 \<notin> ended cameraOnA
   \<and> fst (acquire requestB (Inl ''NotReadableError'') (Inl ''NotReadableError'') cameraOnA)
       = Inl ''NotReadableError''
   \<and> 1 \<in> ended (snd (startStream requestB (Inl ''NotReadableError'')
                        (Inl ''NotReadableError'') cameraOnA))
   \<and> stream (snd (startStream requestB (Inl ''NotReadableError'')
                        (Inl ''NotReadableError'') cameraOnA)) = None"
  by (simp add: stream_defs cameraOnA_def requestB_def initialCamera_def)

text \<open>
  Claim C1, amended. For every request of the stream effect, once its acquisition has
  settled: no stream is opened after a track was stopped (nothing is released before the
  acquisition is over). When a stream \<open>s\<close> was acquired (a fresh one: not the active
  stream, its tracks live) and the request is still mounted, \<open>s\<close> becomes the active
  stream with its tracks live, the tracks stopped are exactly those of the stream that was
  active, and none is stopped before the acquisition is logged. When \<open>s\<close> was acquired
  and the request had been abandoned, the tracks of \<open>s\<close> are stopped as the last action
  and the active stream is left as it was. When both attempts failed and the request is
  still mounted, no stream is active and the tracks of the stream that was active are
  stopped; when it had been abandoned, nothing changes.
\<close>

theorem stream_handover:
  "acquiredBeforeReleased (appended c (snd (startStream r primary fallback c)))
   \<and> (\<forall>s. fst (acquire r primary fallback c) = Inr s \<and> mounted r
          \<and> stream c \<noteq> Some s \<and> s \<notin> ended c
        \<longrightarrow> stream (snd (startStream r primary fallback c)) = Some s
          \<and> s \<notin> ended (snd (startStream r primary fallback c))
          \<and> ended (snd (startStream r primary fallback c)) = ended c \<union> set_option (stream c)
          \<and> list_all (\<lambda>a. \<not> isStop a)
               (takeWhile (\<lambda>a. a \<noteq> ConsoleLog ''Stream acquired'')
                  (appended c (snd (startStream r primary fallback c)))))
   \<and> (\<forall>s. fst (acquire r primary fallback c) = Inr s \<and> \<not> mounted r
        \<longrightarrow> stream (snd (startStream r primary fallback c)) = stream c
          \<and> s \<in> ended (snd (startStream r primary fallback c))
          \<and> last (trace (snd (startStream r primary fallback c))) = TrackStop s)
   \<and> (\<forall>e. fst (acquire r primary fallback c) = Inl e \<and> mounted r
        \<longrightarrow> stream (snd (startStream r primary fallback c)) = None
          \<and> ended (snd (startStream r primary fallback c)) = ended c \<union> set_option (stream c))
   \<and> (\<forall>e. fst (acquire r primary fallback c) = Inl e \<and> \<not> mounted r
        \<longrightarrow> stream (snd (startStream r primary fallback c)) = stream c
          \<and> ended (snd (startStream r primary fallback c)) = ended c)"
  by (cases primary; cases fallback; cases "stream c")
     (auto simp: stream_defs)

text \<open>
  The hand-over at work: stream 2 replaces stream 1, whose tracks are then the only ones
  stopped; and for the abandoned request, stream 2 (acquired by the second attempt) is
  stopped and stream 1 stays active.
\<close>

theorem stream_handover_witness:
  "fst (acquire requestB (Inr 2) (Inl []) cameraOnA) = Inr 2 \<and> mounted requestB
   \<and> stream cameraOnA = Some 1 \<and> 2 \<notin> ended cameraOnA
   \<and> stream (snd (startStream requestB (Inr 2) (Inl []) cameraOnA)) = Some 2
   \<and> ended (snd (startStream requestB (Inr 2) (Inl []) cameraOnA)) = {1}
   \<and> fst (acquire (streamEffectCleanup requestB) (Inl ''OverconstrainedError'') (Inr 2)
            cameraOnA) = Inr 2
   \<and> \<not> mounted (streamEffectCleanup requestB)
   \<and> stream (snd (startStream (streamEffectCleanup requestB) (Inl ''OverconstrainedError'')
                     (Inr 2) cameraOnA)) = Some 1
   \<and> ended (snd (startStream (streamEffectCleanup requestB) (Inl ''OverconstrainedError'')
                     (Inr 2) cameraOnA)) = {2}"
  using stream_handover [of cameraOnA requestB "Inr 2" "Inl []"]
    stream_handover [of cameraOnA "streamEffectCleanup requestB"
      "Inl ''OverconstrainedError''" "Inr 2"]
  by (simp add: stream_defs cameraOnA_def requestB_def initialCamera_def streamEffectCleanup_def)

subsection \<open>The fallback and the fault\<close>

text \<open>
  A request that was abandoned and whose two attempts fail reports nothing: the error
  stays empty, stream 1 stays active and its tracks stay live.
\<close>

theorem abandoned_failure_reports_nothing:
  "\<not> mounted (streamEffectCleanup requestB)
   \<and> error (snd (startStream (streamEffectCleanup requestB) (Inl ''NotReadableError'')
                  (Inl ''NotReadableError'') cameraOnA)) = None
   \<and> stream (snd (startStream (streamEffectCleanup requestB) (Inl ''NotReadableError'')
                  (Inl ''NotReadableError'') cameraOnA)) = Some 1
   \<and> 1 \<notin> ended (snd (startStream (streamEffectCleanup requestB) (Inl ''NotReadableError'')
                  (Inl ''NotReadableError'') cameraOnA))"
  by (simp add: stream_defs cameraOnA_def requestB_def initialCamera_def streamEffectCleanup_def)

text \<open>
  Claim C2, amended. When the request with the full constraints fails, there is exactly
  one more request, with the device identity alone; when the first succeeds there is no
  other. \<^verbatim>\<open>startStream\<close> always resolves. When the second request fails too and the
  request is still mounted, the error becomes \<^verbatim>\<open>Failed to connect:\<close> followed by the
  message of the second failure, no stream is active, and the tracks of the stream that
  was active are stopped. When the request had been abandoned, the failure changes neither
  the error nor the active stream, and stops no track.
\<close>

theorem acquisition_retry_and_fault:
  "(\<forall>e1. primary = Inl e1 \<longrightarrow>
       filter isGetUserMedia (appended c (snd (startStream r primary fallback c)))
       = [GetUserMedia (fullConstraints r),
          GetUserMedia (Constraints (requestedDevice r) None None None)])
   \<and> (\<forall>s. primary = Inr s \<longrightarrow>
       filter isGetUserMedia (appended c (snd (startStream r primary fallback c)))
       = [GetUserMedia (fullConstraints r)])
   \<and> fst (startStream r primary fallback c) = Resolved ()
   \<and> (\<forall>e1 e2. primary = Inl e1 \<and> fallback = Inl e2 \<and> mounted r \<longrightarrow>
         error (snd (startStream r primary fallback c)) = Some (''Failed to connect: '' @ e2)
       \<and> stream (snd (startStream r primary fallback c)) = None
       \<and> ended (snd (startStream r primary fallback c)) = ended c \<union> set_option (stream c))
   \<and> (\<forall>e1 e2. primary = Inl e1 \<and> fallback = Inl e2 \<and> \<not> mounted r \<longrightarrow>
         error (snd (startStream r primary fallback c)) = error c
       \<and> stream (snd (startStream r primary fallback c)) = stream c
       \<and> ended (snd (startStream r primary fallback c)) = ended c)"
  by (cases primary; cases fallback; cases "stream c")
     (auto simp: stream_defs)

text \<open>
  Both attempts fail for the mounted request for \<open>camB\<close>: two requests, the second with
  the device alone, then the fault.
\<close>

theorem acquisition_retry_and_fault_witness:
  "mounted requestB
   \<and> filter isGetUserMedia (appended cameraOnA
        (snd (startStream requestB (Inl ''OverconstrainedError'') (Inl ''NotReadableError'')
               cameraOnA)))
      = [GetUserMedia (Constraints ''camB'' (Some 1920) (Some 1080) None),
         GetUserMedia (Constraints ''camB'' None None None)]
   \<and> error (snd (startStream requestB (Inl ''OverconstrainedError'') (Inl ''NotReadableError'')
                    cameraOnA))
      = Some ''Failed to connect: NotReadableError''
   \<and> stream (snd (startStream requestB (Inl ''OverconstrainedError'') (Inl ''NotReadableError'')
                     cameraOnA)) = None
   \<and> ended (snd (startStream requestB (Inl ''OverconstrainedError'') (Inl ''NotReadableError'')
                    cameraOnA)) = {1}"
  using acquisition_retry_and_fault
    [of "Inl ''OverconstrainedError''" cameraOnA requestB "Inl ''NotReadableError''"]
  by (simp add: stream_defs cameraOnA_def requestB_def initialCamera_def)

subsection \<open>Pan and zoom\<close>

lemma saveSettings_keeps [simp]:
  "filters (saveSettings a) = filters a"
  "pan (saveSettings a) = pan a"
  "aspectRatio (saveSettings a) = aspectRatio a"
  "cam (saveSettings a) = cam a"
  "isLoadedRef (saveSettings a) = isLoadedRef a"
  by (simp_all add: saveSettings_def Let_def)

lemma setFilters_fields [simp]:
  "filters (setFilters f a) = f"
  "aspectRatio (setFilters f a) = aspectRatio a"
  "cam (setFilters f a) = cam a"
  "isLoadedRef (setFilters f a) = isLoadedRef a"
  by (simp_all add: setFilters_def setFiltersRendered_def panResetEffect_def Let_def)

lemma setAspectRatio_fields [simp]:
  "filters (setAspectRatio v a) = filters a"
  "pan (setAspectRatio v a) = pan a"
  "aspectRatio (setAspectRatio v a) = v"
  "cam (setAspectRatio v a) = cam a"
  "isLoadedRef (setAspectRatio v a) = isLoadedRef a"
  by (simp_all add: setAspectRatio_def)

lemma setCompatibilityMode_fields [simp]:
  "filters (setCompatibilityMode v a) = filters a"
  "pan (setCompatibilityMode v a) = pan a"
  "aspectRatio (setCompatibilityMode v a) = aspectRatio a"
  "compatibilityMode (cam (setCompatibilityMode v a)) = v"
  "selectedDeviceId (cam (setCompatibilityMode v a)) = selectedDeviceId (cam a)"
  by (simp_all add: setCompatibilityMode_def)

lemma aspect_loadSettings: "aspectRatio a \<noteq> [] \<Longrightarrow> aspectRatio (loadSettings a) \<noteq> []"
  by (simp add: loadSettings_def Let_def split: option.splits stored.splits)

text \<open>The aspect ratio the viewer holds is never the empty string.\<close>

lemma reachable_aspect:
  "reachable a \<Longrightarrow> aspectRatio a \<noteq> []"
proof (induction rule: reachable.induct)
  case (init storage)
  then show ?case by (simp add: initialApp_def)
next
  case (deviceSet a device)
  then show ?case
    by (simp add: setSelectedDeviceId_def Let_def aspect_loadSettings)
next
  case (aspectSet a v)
  then show ?case by (auto simp add: aspectRatioOptions_def)
next
  case (panTo a newX newY)
  then show ?case by (simp add: handlePanChange_def Let_def)
next
  case (mouseMove a e box)
  then show ?case
    by (auto simp add: handleMouseMove_def applyPanDelta_def Let_def split: option.splits)
next
  case (recordToggled a stopThrows pending)
  then show ?case
    by (auto simp add: handleToggleRecord_def Let_def
        split: option.splits settled.splits prod.splits)
qed (auto simp add: handleMouseDown_def handleMouseUp_def settle_def setFiltersRendered_def)

text \<open>
  The pan that is emitted: at zoom 1 the transform is built from \<open>(0, 0)\<close>, in every
  state, whatever pan is stored. It is needed in the render that follows a change to zoom
  1, where the stored pan is still the one of before; the effect resets it afterwards.
\<close>

lemma effectivePan_forced:
  "zoom (filters a) = 1 \<Longrightarrow>
     effectivePan a = \<lparr>x = Finite 0, y = Finite 0\<rparr>
     \<and> translate (videoStyle a) = \<lparr>x = Finite 0, y = Finite 0\<rparr>"
  by (simp add: effectivePan_def videoStyle_def percent_def)

lemma effectivePan_zoomed:
  "zoom (filters a) \<noteq> 1 \<Longrightarrow>
     effectivePan a = pan a
     \<and> translate (videoStyle a) = \<lparr>x = percent (x (pan a)), y = percent (y (pan a))\<rparr>
     \<and> scale (videoStyle a) = zoom (filters a)"
  by (simp add: effectivePan_def videoStyle_def)

lemma pannedApp_pan: "pan pannedApp = \<lparr>x = Finite 1, y = Finite (- 1)\<rparr>"
  by (simp add: pannedApp_def handlePanChange_def zoomedApp_def Let_def)

lemma reset_render_forces_pan:
  "zoom (filters (setFiltersRendered DEFAULT_FILTERS pannedApp)) = 1
   \<and> pan (setFiltersRendered DEFAULT_FILTERS pannedApp) = \<lparr>x = Finite 1, y = Finite (- 1)\<rparr>
   \<and> effectivePan (setFiltersRendered DEFAULT_FILTERS pannedApp) = \<lparr>x = Finite 0, y = Finite 0\<rparr>
   \<and> translate (videoStyle (setFiltersRendered DEFAULT_FILTERS pannedApp))
       = \<lparr>x = Finite 0, y = Finite 0\<rparr>
   \<and> pan (setFilters DEFAULT_FILTERS pannedApp) = \<lparr>x = Finite 0, y = Finite 0\<rparr>"
proof -
  have z: "zoom (filters pannedApp) = 3"
    by (simp add: pannedApp_def handlePanChange_def zoomedApp_def Let_def)
  have r: "zoom (filters (setFiltersRendered DEFAULT_FILTERS pannedApp)) = 1"
    by (simp add: setFiltersRendered_def DEFAULT_FILTERS_def)
  have p: "pan (setFiltersRendered DEFAULT_FILTERS pannedApp) = \<lparr>x = Finite 1, y = Finite (- 1)\<rparr>"
    by (simp add: setFiltersRendered_def pannedApp_pan)
  have e: "pan (setFilters DEFAULT_FILTERS pannedApp) = \<lparr>x = Finite 0, y = Finite 0\<rparr>"
    by (simp add: setFilters_def setFiltersRendered_def panResetEffect_def Let_def z
        DEFAULT_FILTERS_def)
  show ?thesis using r p e effectivePan_forced [OF r] by simp
qed

lemma centred_setFilters: "centred a \<Longrightarrow> centred (setFilters f a)"
  by (simp add: centred_def setFilters_def setFiltersRendered_def panResetEffect_def Let_def)

lemma centred_loadSettings:
  assumes "centred a"
  shows "centred (loadSettings a)"
proof -
  have 1: "centred (b\<lparr>isLoadedRef := l\<rparr>) = centred b" for b l
    by (simp add: centred_def)
  have 2: "centred (b\<lparr>cam := l\<rparr>) = centred b" for b l
    by (simp add: centred_def)
  have 3: "centred (setAspectRatio v b) = centred b" for b v
    by (simp add: centred_def)
  have 4: "centred (setCompatibilityMode v b) = centred b" for b v
    by (simp add: centred_def)
  show ?thesis
    using assms
    by (simp add: loadSettings_def Let_def 1 2 3 4 centred_setFilters
        split: option.splits stored.splits)
qed

lemma clamp_abs: "0 \<le> m \<Longrightarrow> \<bar>max (- m) (min m v)\<bar> \<le> (m::real)"
  by (simp add: max_def min_def abs_if)

lemma clamp_inRange:
  "0 \<le> m \<Longrightarrow> n \<noteq> NaN \<Longrightarrow> inRange m (mathMax (- m) (mathMin m n))"
  by (cases n) (simp_all add: inRange_def mathMax_def mathMin_def max_def min_def abs_if)

lemma clamp_zero:
  "d \<noteq> NaN \<Longrightarrow> mathMax (- 0) (mathMin 0 (numberPlus (Finite 0) d)) = Finite 0"
  by (cases d) (simp_all add: mathMax_def mathMin_def max_def min_def)

text \<open>
  The steps that keep the stored pan at the origin while the zoom is 1: every setter and
  handler, a mouse move over an element of zero width or height excepted.
\<close>

lemma centred_kept:
  assumes "centred a"
  shows "centred (setFilters f a) \<and> centred (setAspectRatio v a)
       \<and> centred (setCompatibilityMode m a) \<and> centred (setSelectedDeviceId device a)
       \<and> centred (settle a) \<and> centred (handlePanChange newX newY a)
       \<and> centred (handleMouseDown e a) \<and> centred (handleMouseUp a)
       \<and> centred (handleToggleRecord stopThrows pending a)
       \<and> centred (handleMouseMove e None a)
       \<and> (w \<noteq> 0 \<and> h \<noteq> 0 \<longrightarrow> centred (handleMouseMove e (Some (w, h)) a))"
proof -
  have 1: "centred (setFilters f a)" by (rule centred_setFilters [OF assms])
  have 2: "centred (setAspectRatio v a)" "centred (setCompatibilityMode m a)"
    "centred (settle a)" "centred (handleMouseDown e a)" "centred (handleMouseUp a)"
    "centred (handleMouseMove e None a)"
    using assms
    by (simp_all add: centred_def settle_def handleMouseDown_def handleMouseUp_def
        handleMouseMove_def)
  have 3: "centred (setSelectedDeviceId device a)"
  proof -
    have "centred (loadSettings (a\<lparr>cam := (cam a)\<lparr>selectedDeviceId := device\<rparr>\<rparr>))"
      using assms by (intro centred_loadSettings) (simp add: centred_def)
    then have "centred (saveSettings (loadSettings (a\<lparr>cam := (cam a)\<lparr>selectedDeviceId := device\<rparr>\<rparr>)))"
      by (simp add: centred_def)
    then show ?thesis using assms by (simp add: setSelectedDeviceId_def Let_def centred_def)
  qed
  have 4: "centred (handlePanChange newX newY a)"
    using assms by (auto simp add: centred_def handlePanChange_def Let_def)
  have 5: "centred (handleToggleRecord stopThrows pending a)"
    using assms
    by (auto simp add: centred_def handleToggleRecord_def Let_def
        split: option.splits settled.splits prod.splits)
  have 6: "w \<noteq> 0 \<and> h \<noteq> 0 \<longrightarrow> centred (handleMouseMove e (Some (w, h)) a)"
    using assms
    by (auto simp add: centred_def handleMouseMove_def applyPanDelta_def numberDivide_def
        mathMax_def mathMin_def Let_def max_def min_def)
  show ?thesis using 1 2 3 4 5 6 by blast
qed

text \<open>
  What holds of the clamp. In a state whose stored pan is at the origin when the zoom is 1
  (the initial state is one, and the steps above keep it so), at a zoom of at least 1:
  after \<^verbatim>\<open>handlePanChange\<close> both coordinates are within \<open>(zoom - 1) / 2\<close>, each clamped
  on its own; after the update of a drag a coordinate is within the bound unless the sum
  of the pan and the delta is \<^verbatim>\<open>NaN\<close>; at a zoom of at most 1 an absolute pan changes
  nothing and a delta that is not \<^verbatim>\<open>NaN\<close> leaves the pan as it is.
\<close>

lemma pan_clamped:
  assumes "centred a" and "1 \<le> zoom (filters a)"
  shows "inRange ((zoom (filters a) - 1) / 2) (x (pan (handlePanChange newX newY a)))
       \<and> inRange ((zoom (filters a) - 1) / 2) (y (pan (handlePanChange newX newY a)))
       \<and> (numberPlus (x (pan a)) dx \<noteq> NaN \<longrightarrow>
            inRange ((zoom (filters a) - 1) / 2) (x (pan (applyPanDelta dx dy a))))
       \<and> (numberPlus (y (pan a)) dy \<noteq> NaN \<longrightarrow>
            inRange ((zoom (filters a) - 1) / 2) (y (pan (applyPanDelta dx dy a))))
       \<and> (1 < zoom (filters a) \<longrightarrow>
            pan (handlePanChange newX newY a)
              = \<lparr>x = Finite (max (- ((zoom (filters a) - 1) / 2))
                            (min ((zoom (filters a) - 1) / 2) newX)),
                 y = Finite (max (- ((zoom (filters a) - 1) / 2))
                            (min ((zoom (filters a) - 1) / 2) newY))\<rparr>)
       \<and> (zoom (filters a) \<le> 1 \<longrightarrow> handlePanChange newX newY a = a)
       \<and> (zoom (filters a) \<le> 1 \<and> dx \<noteq> NaN \<and> dy \<noteq> NaN \<longrightarrow>
            pan (applyPanDelta dx dy a) = pan a)"
proof -
  let ?m = "(zoom (filters a) - 1) / 2"
  have m: "0 \<le> ?m" using assms(2) by simp
  have c: "zoom (filters a) = 1 \<longrightarrow> pan a = \<lparr>x = Finite 0, y = Finite 0\<rparr>"
    using assms(1) by (simp add: centred_def)
  have z: "zoom (filters a) \<le> 1 \<longrightarrow> zoom (filters a) = 1" using assms(2) by simp
  have hx: "x (pan (handlePanChange newX newY a))
      = Finite (if zoom (filters a) \<le> 1 then 0 else max (- ?m) (min ?m newX))"
    using c z by (simp add: handlePanChange_def Let_def)
  have hy: "y (pan (handlePanChange newX newY a))
      = Finite (if zoom (filters a) \<le> 1 then 0 else max (- ?m) (min ?m newY))"
    using c z by (simp add: handlePanChange_def Let_def)
  have b1: "inRange ?m (x (pan (handlePanChange newX newY a)))"
    unfolding hx using m clamp_abs [OF m, of newX] by (simp add: inRange_def)
  have b2: "inRange ?m (y (pan (handlePanChange newX newY a)))"
    unfolding hy using m clamp_abs [OF m, of newY] by (simp add: inRange_def)
  have b3: "numberPlus (x (pan a)) dx \<noteq> NaN \<longrightarrow> inRange ?m (x (pan (applyPanDelta dx dy a)))"
    using clamp_inRange [OF m] by (simp add: applyPanDelta_def Let_def)
  have b4: "numberPlus (y (pan a)) dy \<noteq> NaN \<longrightarrow> inRange ?m (y (pan (applyPanDelta dx dy a)))"
    using clamp_inRange [OF m] by (simp add: applyPanDelta_def Let_def)
  have ex: "1 < zoom (filters a) \<longrightarrow>
            pan (handlePanChange newX newY a)
              = \<lparr>x = Finite (max (- ?m) (min ?m newX)), y = Finite (max (- ?m) (min ?m newY))\<rparr>"
    by (simp add: handlePanChange_def Let_def)
  have n1: "zoom (filters a) \<le> 1 \<longrightarrow> handlePanChange newX newY a = a"
    by (simp add: handlePanChange_def)
  have n2: "zoom (filters a) \<le> 1 \<and> dx \<noteq> NaN \<and> dy \<noteq> NaN \<longrightarrow>
      pan (applyPanDelta dx dy a) = pan a"
  proof (intro impI)
    assume h: "zoom (filters a) \<le> 1 \<and> dx \<noteq> NaN \<and> dy \<noteq> NaN"
    then have z1: "zoom (filters a) = 1" using z by blast
    have p: "pan a = \<lparr>x = Finite 0, y = Finite 0\<rparr>" using c z1 by blast
    show "pan (applyPanDelta dx dy a) = pan a"
      using h clamp_zero [of dx] clamp_zero [of dy]
      by (simp add: applyPanDelta_def Let_def z1 p)
  qed
  show ?thesis
    using b1 b2 b3 b4 ex n1 n2 by blast
qed

text \<open>
  Claim C3. After any pan request both coordinates of the pan are to be within
  \<open>(zoom - 1) / 2\<close>; the update of a drag does not keep them there on this input. A
  drag at zoom 3, where the bound is 1, begun at \<open>(100, 100)\<close>; the pointer
  moves to \<open>(130, 100)\<close> while the video element is 640 wide and 0 high. The horizontal
  delta is \<open>30 / 640\<close> and the pan moves by it; the vertical delta is \<open>0 / 0\<close>, which is
  \<^verbatim>\<open>NaN\<close>, the sum and both \<^verbatim>\<open>Math.min\<close> and \<^verbatim>\<open>Math.max\<close> give \<^verbatim>\<open>NaN\<close>, and
  the stored pan has a coordinate that is not within the bound.
\<close>

theorem flat_element_drag_not_a_number:
  "zoom (filters draggingApp) = 3 \<and> isDraggingRef draggingApp
   \<and> pan draggingApp = \<lparr>x = Finite 0, y = Finite 0\<rparr>
   \<and> pan (handleMouseMove \<lparr>x = 130, y = 100\<rparr> (Some (640, 0)) draggingApp)
       = \<lparr>x = Finite (3 / 64), y = NaN\<rparr>
   \<and> inRange ((zoom (filters draggingApp) - 1) / 2)
        (x (pan (handleMouseMove \<lparr>x = 130, y = 100\<rparr> (Some (640, 0)) draggingApp)))
   \<and> \<not> inRange ((zoom (filters draggingApp) - 1) / 2)
        (y (pan (handleMouseMove \<lparr>x = 130, y = 100\<rparr> (Some (640, 0)) draggingApp)))
   \<and> effectivePan (handleMouseMove \<lparr>x = 130, y = 100\<rparr> (Some (640, 0)) draggingApp)
       = \<lparr>x = Finite (3 / 64), y = NaN\<rparr>"
proof -
  have f: "filters zoomedApp = DEFAULT_FILTERS\<lparr>zoom := 3\<rparr>"
    by (simp add: zoomedApp_def)
  have p: "pan zoomedApp = \<lparr>x = Finite 0, y = Finite 0\<rparr>"
    by (simp add: zoomedApp_def setFilters_def setFiltersRendered_def panResetEffect_def
        initialApp_def Let_def)
  have s: "\<not> splitMode zoomedApp"
    by (simp add: zoomedApp_def setFilters_def setFiltersRendered_def panResetEffect_def
        saveSettings_def initialApp_def initialCamera_def Let_def)
  have d: "draggingApp = zoomedApp\<lparr>isDraggingRef := True, lastMousePosRef := \<lparr>x = 100, y = 100\<rparr>\<rparr>"
    by (simp add: draggingApp_def handleMouseDown_def f s)
  have m: "pan (handleMouseMove \<lparr>x = 130, y = 100\<rparr> (Some (640, 0)) draggingApp)
       = \<lparr>x = Finite (3 / 64), y = NaN\<rparr>"
    by (simp add: d handleMouseMove_def applyPanDelta_def numberDivide_def mathMax_def
        mathMin_def Let_def f p)
  have z: "zoom (filters (handleMouseMove \<lparr>x = 130, y = 100\<rparr> (Some (640, 0)) draggingApp)) = 3"
    by (simp add: d handleMouseMove_def applyPanDelta_def Let_def f)
  show ?thesis
    by (simp add: m z effectivePan_def inRange_def) (simp add: d f p)
qed

subsection \<open>Device enumeration\<close>

text \<open>
  A selected device that is missing from a new enumeration stays selected: \<open>camA\<close> is
  selected when the call starts and when it is answered, the enumeration answers \<open>camB\<close>
  alone, and \<open>camA\<close> is still the selection.
\<close>

theorem vanished_device_stays_selected:
  "getDevicesCalled (cameraOnA\<lparr>selectedDeviceId := ''camA''\<rparr>) = ''camA''
   \<and> devices (getDevices ''camA''
        (Inr [\<lparr>deviceId = ''camB'', kind = videoinput, label = []\<rparr>])
        (cameraOnA\<lparr>selectedDeviceId := ''camA''\<rparr>))
      = [\<lparr>deviceId = ''camB'', kind = videoinput, label = []\<rparr>]
   \<and> selectedDeviceId (getDevices ''camA''
        (Inr [\<lparr>deviceId = ''camB'', kind = videoinput, label = []\<rparr>])
        (cameraOnA\<lparr>selectedDeviceId := ''camA''\<rparr>)) = ''camA''
   \<and> selectedDeviceId (getDevices ''camA''
        (Inr [\<lparr>deviceId = ''camB'', kind = videoinput, label = []\<rparr>])
        (cameraOnA\<lparr>selectedDeviceId := ''camA''\<rparr>)) \<noteq> []"
  by (simp add: getDevices_def getDevicesCalled_def Let_def cameraOnA_def initialCamera_def)

text \<open>
  Claim C5, amended. After an enumeration that answers, the device list is the video
  inputs of the answer, in its order. If no device was selected when the call started
  (the selection the callback closed over) and there is a video input, the selection
  becomes the identity of the first one, whatever is selected when the answer arrives.
  Otherwise the selection is left as it is when the answer arrives: in particular, when a
  device was selected at the start of the call and nothing else changed the selection
  since, that device stays selected, whether or not it is in the new list, and a device
  that has disappeared does not empty the selection.
\<close>

theorem enumeration_selection:
  "devices (getDevices closedOver (Inr ds) c) = filter (\<lambda>d. kind d = videoinput) ds
   \<and> (closedOver = [] \<and> filter (\<lambda>d. kind d = videoinput) ds \<noteq> [] \<longrightarrow>
        selectedDeviceId (getDevices closedOver (Inr ds) c)
        = deviceId (hd (filter (\<lambda>d. kind d = videoinput) ds)))
   \<and> (closedOver \<noteq> [] \<or> filter (\<lambda>d. kind d = videoinput) ds = [] \<longrightarrow>
        selectedDeviceId (getDevices closedOver (Inr ds) c) = selectedDeviceId c)
   \<and> (getDevicesCalled c \<noteq> [] \<longrightarrow>
        selectedDeviceId (getDevices (getDevicesCalled c) (Inr ds) c) = selectedDeviceId c
        \<and> selectedDeviceId (getDevices (getDevicesCalled c) (Inr ds) c) \<noteq> [])"
  by (auto simp add: getDevices_def getDevicesCalled_def Let_def hd_conv_nth)

text \<open>
  With nothing selected, a microphone and two cameras: the first camera is selected. With
  \<open>camB\<close> selected and an empty answer, \<open>camB\<close> stays selected. And two calls started
  with nothing selected: the first answer selected \<open>camA\<close>, the second answer, which
  lists \<open>camB\<close> first, selects \<open>camB\<close>.
\<close>

theorem enumeration_selection_witness:
  "getDevicesCalled initialCamera = []
   \<and> filter (\<lambda>d. kind d = videoinput)
        [\<lparr>deviceId = ''mic'', kind = audioinput, label = []\<rparr>,
         \<lparr>deviceId = ''camA'', kind = videoinput, label = []\<rparr>,
         \<lparr>deviceId = ''camB'', kind = videoinput, label = []\<rparr>] \<noteq> []
   \<and> selectedDeviceId (getDevices [] (Inr
        [\<lparr>deviceId = ''mic'', kind = audioinput, label = []\<rparr>,
         \<lparr>deviceId = ''camA'', kind = videoinput, label = []\<rparr>,
         \<lparr>deviceId = ''camB'', kind = videoinput, label = []\<rparr>]) initialCamera) = ''camA''
   \<and> getDevicesCalled cameraOnA = ''camB''
   \<and> selectedDeviceId (getDevices ''camB'' (Inr []) cameraOnA) = ''camB''
   \<and> selectedDeviceId (initialCamera\<lparr>selectedDeviceId := ''camA''\<rparr>) = ''camA''
   \<and> selectedDeviceId (getDevices [] (Inr
        [\<lparr>deviceId = ''camB'', kind = videoinput, label = []\<rparr>,
         \<lparr>deviceId = ''camA'', kind = videoinput, label = []\<rparr>])
        (initialCamera\<lparr>selectedDeviceId := ''camA''\<rparr>)) = ''camB''"
  using enumeration_selection [of "[]" "[\<lparr>deviceId = ''mic'', kind = audioinput, label = []\<rparr>,
         \<lparr>deviceId = ''camA'', kind = videoinput, label = []\<rparr>,
         \<lparr>deviceId = ''camB'', kind = videoinput, label = []\<rparr>]" initialCamera]
    enumeration_selection [of "''camB''" "[]" cameraOnA]
    enumeration_selection [of "[]" "[\<lparr>deviceId = ''camB'', kind = videoinput, label = []\<rparr>,
         \<lparr>deviceId = ''camA'', kind = videoinput, label = []\<rparr>]"
      "initialCamera\<lparr>selectedDeviceId := ''camA''\<rparr>"]
  by (simp add: initialCamera_def cameraOnA_def getDevicesCalled_def)

text \<open>
  A failed enumeration leaves the devices that an earlier enumeration found: the list
  is not empty afterwards.
\<close>

theorem enumeration_failure_keeps_devices:
  "devices (getDevices (getDevicesCalled cameraOnA) (Inl ''NotAllowedError'') cameraOnA)
     = [\<lparr>deviceId = ''camA'', kind = videoinput, label = ''Scope''\<rparr>]
   \<and> devices (getDevices (getDevicesCalled cameraOnA) (Inl ''NotAllowedError'') cameraOnA)
     \<noteq> []"
  by (simp add: getDevices_def say_def cameraOnA_def initialCamera_def)

text \<open>
  Claim C10, amended. When the enumeration fails, \<^verbatim>\<open>getDevices\<close> raises nothing: the
  error is written to the console and nothing else changes, so the device list and the
  selection are what they were; the list is empty when no enumeration had answered
  before.
\<close>

theorem enumeration_failure_absorbed:
  "getDevices closedOver (Inl e) c
     = c\<lparr>trace := trace c @ [ConsoleError (''Error enumerating devices: '' @ e)]\<rparr>
   \<and> devices (getDevices closedOver (Inl e) c) = devices c
   \<and> selectedDeviceId (getDevices closedOver (Inl e) c) = selectedDeviceId c
   \<and> devices (getDevices closedOver (Inl e) initialCamera) = []"
  by (simp add: getDevices_def say_def initialCamera_def)

subsection \<open>Still capture\<close>

text \<open>
  Claim C8. \<^verbatim>\<open>takePhoto\<close> returns null when there is no video element. Otherwise it
  returns an image whose width and height are \<^verbatim>\<open>videoWidth\<close> and \<^verbatim>\<open>videoHeight\<close>
  and whose pixel at every column and row is the pixel of the decoded frame there (no
  scaling, nothing outside the frame); and the image does not depend on the style set on
  the element for display (the transform and the filters).
\<close>

theorem takePhoto_native_frame:
  "takePhoto (None :: css videoElement option) = None
   \<and> (\<exists>img. takePhoto (Some (v :: css videoElement)) = Some img
        \<and> width img = videoWidth v \<and> height img = videoHeight v
        \<and> (\<forall>col row. col < videoWidth v \<and> row < videoHeight v
              \<longrightarrow> bitmap img col row = Some (currentFrame v col row))
        \<and> (\<forall>col row. \<not> (col < videoWidth v \<and> row < videoHeight v)
              \<longrightarrow> bitmap img col row = None))
   \<and> takePhoto (Some (v\<lparr>displayStyle := s\<rparr>)) = takePhoto (Some v)"
  by (auto simp add: takePhoto_def drawImage_def createCanvas_def toDataURL_def Let_def
      fun_eq_iff)

text \<open>
  A frame of 2 by 2 pixels shown at zoom 3: the photo is 2 by 2, its pixel at column 1 and
  row 1 is the frame's, and it is the same photo with the style of zoom 1.
\<close>

theorem takePhoto_native_frame_witness:
  "scale (displayStyle sampleVideo) = 3
   \<and> map_option width (takePhoto (Some sampleVideo)) = Some 2
   \<and> map_option height (takePhoto (Some sampleVideo)) = Some 2
   \<and> map_option (\<lambda>img. bitmap img 1 1) (takePhoto (Some sampleVideo)) = Some (Some 11)
   \<and> map_option (\<lambda>img. bitmap img 2 1) (takePhoto (Some sampleVideo)) = Some None
   \<and> takePhoto (Some (sampleVideo\<lparr>displayStyle := videoStyle (initialApp Map.empty)\<rparr>))
       = takePhoto (Some sampleVideo)"
proof -
  have s: "scale (displayStyle sampleVideo) = 3"
    by (simp add: sampleVideo_def videoStyle_def zoomedApp_def)
  have d: "videoWidth sampleVideo = 2" "videoHeight sampleVideo = 2"
    "currentFrame sampleVideo 1 1 = 11"
    by (simp_all add: sampleVideo_def)
  show ?thesis
    using s d takePhoto_native_frame [of sampleVideo "videoStyle (initialApp Map.empty)"]
    by auto
qed

subsection \<open>Settings\<close>

text \<open>
  Claim C9. For every device identity (a selected device: the identity is not empty) and
  every state the viewer can be in when the save effect writes (the load has settled):
  loading the settings of that device from a storage that holds what the save effect
  wrote for it yields exactly the filters, the aspect ratio and the compatibility mode
  that were saved, whatever the viewer held before the load.
\<close>

theorem settings_round_trip:
  assumes "reachable a" and "selectedDeviceId (cam a) \<noteq> []" and "isLoadedRef a"
    and "selectedDeviceId (cam b) = selectedDeviceId (cam a)"
    and "localStorage b (settingsKey (selectedDeviceId (cam a)))
         = localStorage (saveSettings a) (settingsKey (selectedDeviceId (cam a)))"
  shows "filters (loadSettings b) = filters a
       \<and> aspectRatio (loadSettings b) = aspectRatio a
       \<and> compatibilityMode (cam (loadSettings b)) = compatibilityMode (cam a)"
proof -
  have r: "aspectRatio a \<noteq> []" by (rule reachable_aspect [OF assms(1)])
  have s: "localStorage b (settingsKey (selectedDeviceId (cam b)))
      = Some (Settings (Some (filters a)) (Some (aspectRatio a))
          (Some (compatibilityMode (cam a))))"
    using assms(2,3,4,5) by (simp add: saveSettings_def Let_def)
  show ?thesis
    using r s assms(2,4) by (simp add: loadSettings_def Let_def)
qed

text \<open>
  Zoom 2, sharpening 40 and the ratio 16/9 saved for \<open>camA\<close>; after a reload the viewer
  holds the defaults, and the load brings back what was saved.
\<close>

theorem settings_round_trip_witness:
  "reachable savedApp \<and> selectedDeviceId (cam savedApp) = ''camA'' \<and> isLoadedRef savedApp
   \<and> selectedDeviceId (cam reloadedApp) = ''camA''
   \<and> filters reloadedApp = DEFAULT_FILTERS \<and> aspectRatio reloadedApp = ''3/2''
   \<and> filters (loadSettings reloadedApp) = DEFAULT_FILTERS\<lparr>zoom := 2, sharpen := 40\<rparr>
   \<and> aspectRatio (loadSettings reloadedApp) = ''16/9''
   \<and> compatibilityMode (cam (loadSettings reloadedApp)) = False"
proof -
  have r: "reachable savedApp"
    unfolding savedApp_def by (intro reachable.intros) (simp add: aspectRatioOptions_def)
  have d: "selectedDeviceId (cam savedApp) = ''camA''"
    by (simp add: savedApp_def setSelectedDeviceId_def loadSettings_def settle_def Let_def
        initialApp_def initialCamera_def split: option.splits stored.splits)
  have n: "selectedDeviceId (cam savedApp) \<noteq> []" using d by simp
  have l: "isLoadedRef savedApp"
    by (simp add: savedApp_def settle_def)
  have b: "selectedDeviceId (cam reloadedApp) = selectedDeviceId (cam savedApp)"
    using d by (simp add: reloadedApp_def)
  have s: "localStorage reloadedApp (settingsKey (selectedDeviceId (cam savedApp)))
         = localStorage (saveSettings savedApp) (settingsKey (selectedDeviceId (cam savedApp)))"
    by (simp add: reloadedApp_def initialApp_def)
  have f: "filters savedApp = DEFAULT_FILTERS\<lparr>zoom := 2, sharpen := 40\<rparr>"
    by (simp add: savedApp_def)
  have a: "aspectRatio savedApp = ''16/9''"
    by (simp add: savedApp_def)
  have c: "compatibilityMode (cam savedApp) = False"
    by (simp add: savedApp_def setSelectedDeviceId_def loadSettings_def settle_def Let_def
        initialApp_def initialCamera_def split: option.splits stored.splits)
  show ?thesis
    using settings_round_trip [OF r n l b s] r d l f a c
    by (simp add: reloadedApp_def initialApp_def)
qed

subsection \<open>Recording\<close>




lemma startStream_recording [simp]:
  "recorders (snd (startStream r p f c)) = recorders c"
  "isRecording (snd (startStream r p f c)) = isRecording c"
  "mediaRecorderRef (snd (startStream r p f c)) = mediaRecorderRef c"
  by (cases p; cases f; cases "stream c";
      simp add: startStream_def acquire_def say_def stopTracks_def setStream_def
        streamCleanup_def Let_def)+







text \<open>
  Claim C7. A recording is started on stream 1 and stopped, which resolves with the clip
  and leaves no recorder recording. \<^verbatim>\<open>stopRecording\<close> is then called again, with no
  recording in progress: the reference still holds the finished recorder, so the promise
  is rejected or stays pending, as the platform has it, and in neither case resolves to
  null.
\<close>

theorem stop_after_finished_recording:
  "fst (stopRecording t [5] (startRecording (initialCamera\<lparr>stream := Some 1\<rparr>)))
     = Resolved (Some [5])
   \<and> activeRecorders (snd (stopRecording t [5]
        (startRecording (initialCamera\<lparr>stream := Some 1\<rparr>)))) = []
   \<and> \<not> isRecording (snd (stopRecording t [5]
        (startRecording (initialCamera\<lparr>stream := Some 1\<rparr>))))
   \<and> fst (stopRecording t [] (snd (stopRecording t [5]
        (startRecording (initialCamera\<lparr>stream := Some 1\<rparr>)))))
       = (if t then Rejected ''InvalidStateError'' else Pending)
   \<and> fst (stopRecording t [] (snd (stopRecording t [5]
        (startRecording (initialCamera\<lparr>stream := Some 1\<rparr>)))))
       \<noteq> Resolved None"
  by (simp add: rec_defs)

text \<open>
  What holds of the two calls: with no recorder ever made, \<^verbatim>\<open>stopRecording\<close> resolves
  to null and changes nothing; with no active stream, \<^verbatim>\<open>startRecording\<close> changes
  nothing.
\<close>

lemma idle_recording_calls:
  "(mediaRecorderRef c = None \<longrightarrow> stopRecording t p c = (Resolved None, c))
   \<and> (stream c = None \<longrightarrow> startRecording c = c)"
  by (simp add: stopRecording_def startRecording_def)

end
